theory Spec2Isabelle
  imports Complex_Main "HOL-Library.AList"
begin

section \<open>The FTX gateway (vnpy_ftx/ftx_gateway.py) as a state-passing model\<close>

text \<open>
  The gateway is three Python objects (\<open>FtxGateway\<close>, \<open>FtxRestApi\<close>, \<open>FtxWebsocketApi\<close>)
  and one module-level dictionary (\<open>symbol_contract_map\<close>). The model keeps their fields in
  one record and passes it through every method. What a method does to its collaborators
  (the host event engine, the REST request queue, the WebSocket transport, the log, stdout)
  is appended to one chronological list of effects, oldest first, so the order of the
  calls inside a method can be read off. A Python exception is the \<open>Inl\<close> of the result.

  Numbers of the wire protocol (sizes, prices) are rationals: the source only compares
  them with \<open>==\<close> and \<open>!=\<close> and copies them. Python's \<open>int\<close> is \<open>int\<close>. The fields of
  an inbound payload have the types the exchange documents for them.

  Modelled are the methods the properties below are about: the client order ids,
  \<open>send_order\<close>, \<open>cancel_order\<close> and their failure callbacks, \<open>query_history\<close>, the order
  query callback, and the WebSocket session (\<open>on_connected\<close>, \<open>subscribe\<close>, \<open>on_packet\<close>).
  Request signing, the heartbeat timer and the account, position and contract callbacks
  are left out; the contract map they fill is part of the state.
\<close>

subsection \<open>Enumerations and records of vnpy.trader that the gateway uses\<close>

datatype py_error = KeyError | TypeError | AttributeError | ValueError

datatype Security = NONE | SIGNED

datatype Status = SUBMITTING | NOTTRADED | PARTTRADED | ALLTRADED | CANCELLED | REJECTED

text \<open>
  \<open>OrderData.status\<close> is annotated \<open>Status\<close>, but Python does not enforce it and the
  source stores a plain string there in one branch; the field is therefore a member of the
  enumeration or a string.
\<close>

datatype status_value = Member Status | Text string

datatype Direction = LONG | SHORT | NET

datatype OrderType = LIMIT | MARKET | STOP | FAK | FOK

datatype Interval = MINUTE | HOUR | DAILY | WEEKLY | TICK

datatype Product = FUTURES | SPOT

record SubscribeRequest =
  sr_symbol :: string
  sr_exchange :: string

text \<open>\<open>vt_symbol\<close> is set by the request's constructor to \<open>f"{symbol}.{exchange.value}"\<close>.\<close>

definition vt_symbol :: "SubscribeRequest \<Rightarrow> string" where
  "vt_symbol req = sr_symbol req @ ''.'' @ sr_exchange req"

record OrderData =
  od_symbol :: string
  od_exchange :: string
  od_orderid :: string
  od_type :: OrderType
  od_direction :: Direction
  od_price :: rat
  od_volume :: rat
  od_traded :: rat
  od_status :: status_value
  od_datetime :: "string option"
  od_gateway_name :: string

definition vt_orderid :: "OrderData \<Rightarrow> string" where
  "vt_orderid order = od_gateway_name order @ ''.'' @ od_orderid order"

record OrderRequest =
  or_symbol :: string
  or_exchange :: string
  or_direction :: Direction
  or_type :: OrderType
  or_volume :: rat
  or_price :: rat

record CancelRequest =
  cr_orderid :: string
  cr_symbol :: string
  cr_exchange :: string

subsection \<open>Mapping tables of the module\<close>

definition ORDERTYPE_VT2FTX :: "OrderType \<rightharpoonup> string" where
  "ORDERTYPE_VT2FTX = [LIMIT \<mapsto> ''limit'', MARKET \<mapsto> ''market'']"

definition ORDERTYPE_FTX2VT :: "string \<rightharpoonup> OrderType" where
  "ORDERTYPE_FTX2VT = [''limit'' \<mapsto> LIMIT, ''market'' \<mapsto> MARKET]"

definition DIRECTION_VT2FTX :: "Direction \<rightharpoonup> string" where
  "DIRECTION_VT2FTX = [LONG \<mapsto> ''buy'', SHORT \<mapsto> ''sell'']"

definition DIRECTION_FTX2VT :: "string \<rightharpoonup> Direction" where
  "DIRECTION_FTX2VT = [''buy'' \<mapsto> LONG, ''sell'' \<mapsto> SHORT]"

definition INTERVAL_VT2FTX :: "Interval \<rightharpoonup> int" where
  "INTERVAL_VT2FTX = [MINUTE \<mapsto> 60, HOUR \<mapsto> 3600, DAILY \<mapsto> 86400, WEEKLY \<mapsto> 604800]"

text \<open>Indexing a dictionary with a key it does not hold raises \<open>KeyError\<close>.\<close>

definition getitem :: "('k \<rightharpoonup> 'v) \<Rightarrow> 'k \<Rightarrow> py_error + 'v" where
  "getitem m k = (case m k of None \<Rightarrow> Inl KeyError | Some v \<Rightarrow> Inr v)"

subsection \<open>Python's \<open>str\<close> of an integer\<close>

definition digit_char :: "nat \<Rightarrow> char" where
  "digit_char d = char_of (48 + d)"

fun str_nat :: "nat \<Rightarrow> string" where
  "str_nat n = (if n < 10 then [digit_char n] else str_nat (n div 10) @ [digit_char (n mod 10)])"

declare str_nat.simps [simp del]

definition str_int :: "int \<Rightarrow> string" where
  "str_int i = (if i < 0 then CHR ''-'' # str_nat (nat (- i)) else str_nat (nat i))"

subsection \<open>Order status reconciliation\<close>

text \<open>
  The raw fields of one exchange order, as \<open>on_query_order\<close> reads them from an element of
  \<open>data["result"]\<close> and \<open>on_packet\<close> from \<open>packet["data"]\<close> of an \<open>orders\<close> frame.
\<close>

record raw_order =
  ro_id :: int
  ro_clientId :: string
  ro_market :: string
  ro_type :: string
  ro_side :: string
  ro_price :: rat
  ro_size :: rat
  ro_status :: string
  ro_filledSize :: rat
  ro_remainingSize :: rat
  ro_createdAt :: string

text \<open>The \<open>if\<close>/\<open>elif\<close> chain of \<open>FtxRestApi.on_query_order\<close> (lines 435-450).\<close>

definition rest_order_status :: "raw_order \<Rightarrow> status_value" where
  "rest_order_status d =
    (let current_status = ro_status d;
         size = ro_size d;
         filled_size = ro_filledSize d;
         remaining_size = ro_remainingSize d
     in if current_status = ''new'' then Member NOTTRADED
        else if (current_status = ''open'') \<and> (filled_size = 0) then Member NOTTRADED
        else if (current_status = ''open'') \<and> (size \<noteq> filled_size) then Member PARTTRADED
        else if (current_status = ''closed'') \<and> (size \<noteq> filled_size) then Member CANCELLED
        else if (remaining_size = 0) \<and> (size = filled_size) then Member ALLTRADED
        else Text ''other status'')"

text \<open>The same chain as written a second time in \<open>FtxWebsocketApi.on_packet\<close> (lines 710-725).\<close>

definition ws_order_status :: "raw_order \<Rightarrow> status_value" where
  "ws_order_status d =
    (let current_status = ro_status d;
         size = ro_size d;
         filled_size = ro_filledSize d;
         remaining_size = ro_remainingSize d
     in if current_status = ''new'' then Member NOTTRADED
        else if (current_status = ''open'') \<and> (filled_size = 0) then Member NOTTRADED
        else if (current_status = ''open'') \<and> (size \<noteq> filled_size) then Member PARTTRADED
        else if (current_status = ''closed'') \<and> (size \<noteq> filled_size) then Member CANCELLED
        else if (remaining_size = 0) \<and> (size = filled_size) then Member ALLTRADED
        else Text ''other status'')"

text \<open>
  The table of the specification (section 4.4), read first-match: each row is a condition
  on the raw fields and the canonical status it yields. No row matching is \<open>None\<close>.
\<close>

definition spec_table :: "((raw_order \<Rightarrow> bool) \<times> Status) list" where
  "spec_table =
    [(\<lambda>d. ro_status d = ''new'', NOTTRADED),
     (\<lambda>d. ro_status d = ''open'' \<and> ro_filledSize d = 0, NOTTRADED),
     (\<lambda>d. ro_status d = ''open'' \<and> ro_filledSize d \<noteq> ro_size d, PARTTRADED),
     (\<lambda>d. ro_status d = ''closed'' \<and> ro_filledSize d \<noteq> ro_size d, CANCELLED),
     (\<lambda>d. ro_filledSize d = ro_size d \<and> ro_remainingSize d = 0, ALLTRADED)]"

fun first_match :: "(('a \<Rightarrow> bool) \<times> 'b) list \<Rightarrow> 'a \<Rightarrow> 'b option" where
  "first_match [] d = None"
| "first_match ((c, r) # rules) d = (if c d then Some r else first_match rules d)"

subsection \<open>Effects on the collaborators\<close>

datatype handler =
    On_query_account | On_query_position | On_query_order | On_query_contract
  | On_send_order | On_send_order_error | On_send_order_failed
  | On_cancel_order | On_cancel_failed

text \<open>
  The body of the order POST. \<open>price\<close> and \<open>size\<close> are \<open>str\<close> of a float in the source;
  the model keeps the number.
\<close>

record order_body =
  ob_market :: string
  ob_side :: string
  ob_price :: rat
  ob_size :: rat
  ob_type :: string
  ob_reduceOnly :: bool
  ob_ioc :: bool
  ob_postOnly :: bool
  ob_clientId :: string
  ob_rejectOnPriceBand :: bool
  ob_security :: Security

datatype request_data = SecurityOnly Security | OrderBody order_body

text \<open>What \<open>RestClient.add_request\<close> is called with.\<close>

record Request =
  rq_method :: string
  rq_path :: string
  rq_callback :: handler
  rq_data :: request_data
  rq_extra :: "OrderData option"
  rq_on_error :: "handler option"
  rq_on_failed :: "handler option"

text \<open>The dictionaries handed to \<open>WebsocketClient.send_packet\<close>.\<close>

datatype frame =
    Op_ping
  | Op_login string string int
  | Op_subscribe string "string option"
  | Op_unsubscribe string "string option"

record TradeData =
  td_symbol :: string
  td_exchange :: string
  td_orderid :: string
  td_tradeid :: int
  td_direction :: Direction
  td_price :: rat
  td_volume :: rat
  td_datetime :: string
  td_gateway_name :: string

record TickData =
  tk_gateway_name :: string
  tk_symbol :: string
  tk_exchange :: string
  tk_datetime :: string
  tk_bid_price_1 :: "rat option"
  tk_ask_price_1 :: "rat option"
  tk_bid_volume_1 :: "rat option"
  tk_ask_volume_1 :: "rat option"
  tk_last_price :: "rat option"

text \<open>Inbound WebSocket frames: \<open>packet["data"]\<close> by the channel it belongs to.\<close>

record raw_ticker =
  rt_time :: rat
  rt_bid :: "rat option"
  rt_ask :: "rat option"
  rt_bidSize :: "rat option"
  rt_askSize :: "rat option"
  rt_last :: "rat option"

record raw_fill =
  rf_market :: string
  rf_orderId :: int
  rf_tradeId :: int
  rf_side :: string
  rf_price :: rat
  rf_size :: rat
  rf_time :: string

datatype payload = Ticker raw_ticker | Fill raw_fill | OrderUpdate raw_order | NoPayload

record packet =
  pk_type :: string
  pk_channel :: string
  pk_market :: string
  pk_data :: payload

datatype exception_type = ExcConnectionError | ExcSSLError | ExcOther string

datatype log_msg =
    Log_rest_started
  | Log_ws_started
  | Log_ws_refreshed
  | Log_ws_disconnected
  | Log_contract_not_found string
  | Log_order_failed string string
  | Log_cancel_failed string string
  | Log_orders_queried

datatype printed =
    P_order OrderData
  | P_trade TradeData
  | P_packet packet
  | P_text string
  | P_msg log_msg
  | P_disconnected

datatype effect =
    WriteLog log_msg
  | Print printed
  | OnOrder OrderData
  | OnTrade TradeData
  | OnTick TickData
  | AddRequest Request
  | SendPacket frame
  | RestInit string int string
  | RestStart
  | RestOnError exception_type string
  | RestRequest string string request_data int rat rat
  | WsInit string string int
  | WsStart

subsection \<open>The state of the gateway\<close>

record ContractData =
  cd_symbol :: string
  cd_pricetick :: rat
  cd_min_volume :: rat
  cd_product :: Product

text \<open>
  \<open>rest_proxy_port\<close> holds a string and \<open>rest_proxy_host\<close> an integer: \<open>FtxRestApi.connect\<close>
  assigns its \<open>proxy_host\<close> argument to \<open>self.proxy_port\<close> and the other way round.
  \<open>subscribed\<close> is an association list, a Python dictionary iterating in insertion order.
\<close>

record gateway =
  gateway_name :: string
  orders :: "string \<rightharpoonup> OrderData"
  order_id :: "int \<rightharpoonup> string"
  rest_key :: string
  rest_secret :: string
  rest_proxy_port :: string
  rest_proxy_host :: int
  order_count :: int
  connect_time :: int
  api_key :: string
  api_secret_key :: string
  subscribed :: "(string \<times> SubscribeRequest) list"
  symbol_contract_map :: "string \<rightharpoonup> ContractData"
  effects :: "effect list"

text \<open>
  The constructors: no order, no subscription, the counter at \<open>1_000_000\<close>. The contract map
  is a global of the module, filled by \<open>on_query_contract\<close>; here it is given.
\<close>

definition init_gateway :: "string \<Rightarrow> (string \<rightharpoonup> ContractData) \<Rightarrow> gateway" where
  "init_gateway name contracts =
    \<lparr>gateway_name = name, orders = Map.empty, order_id = Map.empty,
     rest_key = [], rest_secret = [], rest_proxy_port = [], rest_proxy_host = 0,
     order_count = 1000000, connect_time = 0,
     api_key = [], api_secret_key = [], subscribed = [],
     symbol_contract_map = contracts, effects = []\<rparr>"

definition emit :: "effect \<Rightarrow> gateway \<Rightarrow> gateway" where
  "emit e s = s\<lparr>effects := effects s @ [e]\<rparr>"

definition write_log :: "log_msg \<Rightarrow> gateway \<Rightarrow> gateway" where
  "write_log msg s = emit (WriteLog msg) s"

definition add_request :: "Request \<Rightarrow> gateway \<Rightarrow> gateway" where
  "add_request r s = emit (AddRequest r) s"

definition send_packet :: "frame \<Rightarrow> gateway \<Rightarrow> gateway" where
  "send_packet f s = emit (SendPacket f) s"

subsection \<open>FtxGateway\<close>

text \<open>\<open>on_order\<close> caches a copy of the order under its id, then hands it to the host.\<close>

definition on_order :: "OrderData \<Rightarrow> gateway \<Rightarrow> gateway" where
  "on_order order s = emit (OnOrder order) (s\<lparr>orders := (orders s)(od_orderid order \<mapsto> order)\<rparr>)"

definition get_order :: "string \<Rightarrow> gateway \<Rightarrow> OrderData option" where
  "get_order orderid s = orders s orderid"

subsection \<open>FtxRestApi: connecting and client order ids\<close>

definition query_request :: "string \<Rightarrow> handler \<Rightarrow> Request" where
  "query_request path cb =
    \<lparr>rq_method = ''GET'', rq_path = path, rq_callback = cb, rq_data = SecurityOnly SIGNED,
     rq_extra = None, rq_on_error = None, rq_on_failed = None\<rparr>"

definition query_account :: "gateway \<Rightarrow> gateway" where
  "query_account s = add_request (query_request ''/api/wallet/balances'' On_query_account) s"

definition query_position :: "gateway \<Rightarrow> gateway" where
  "query_position s = add_request (query_request ''/api/positions'' On_query_position) s"

definition query_order :: "gateway \<Rightarrow> gateway" where
  "query_order s = add_request (query_request ''/api/orders'' On_query_order) s"

definition query_contract :: "gateway \<Rightarrow> gateway" where
  "query_contract s =
    add_request ((query_request ''/api/markets'' On_query_contract)\<lparr>rq_data := SecurityOnly NONE\<rparr>) s"

text \<open>
  \<open>FtxRestApi.connect\<close>. \<open>now\<close> is \<open>int(datetime.now().strftime("%y%m%d%H%M%S"))\<close>, the
  reading of the wall clock, twelve decimal digits and so never negative; it is multiplied
  by the current value of the order counter, which no method ever resets.
\<close>

definition connect :: "nat \<Rightarrow> string \<Rightarrow> string \<Rightarrow> string \<Rightarrow> int \<Rightarrow> gateway \<Rightarrow> gateway" where
  "connect now key secret proxy_host proxy_port s =
    (let s1 = s\<lparr>rest_key := key, rest_secret := secret,
                 rest_proxy_port := proxy_host, rest_proxy_host := proxy_port\<rparr>;
         s2 = s1\<lparr>connect_time := int now * order_count s1\<rparr>;
         s3 = emit (RestInit ''https://ftx.com'' (rest_proxy_host s2) (rest_proxy_port s2)) s2;
         s4 = emit RestStart s3;
         s5 = write_log Log_rest_started s4
     in query_contract (query_order (query_position (query_account s5))))"

text \<open>
  \<open>_new_order_id\<close>: the increment and the read happen under \<open>order_count_lock\<close>, so the
  pair is one atomic step whoever calls it.
\<close>

definition new_order_id :: "gateway \<Rightarrow> int \<times> gateway" where
  "new_order_id s = (let s' = s\<lparr>order_count := order_count s + 1\<rparr> in (order_count s', s'))"

text \<open>
  Modelled from the spec: \<open>OrderRequest.create_order_data\<close> belongs to vnpy.trader.object
  and is not among the sources. The specification (section 3, Order) has the order "created
  locally in SUBMITTING status", with no traded volume and no exchange timestamp yet; the
  comment above the call in \<open>send_order\<close> says the same.
\<close>

definition create_order_data :: "OrderRequest \<Rightarrow> string \<Rightarrow> string \<Rightarrow> OrderData" where
  "create_order_data req orderid gw_name =
    \<lparr>od_symbol = or_symbol req, od_exchange = or_exchange req, od_orderid = orderid,
     od_type = or_type req, od_direction = or_direction req,
     od_price = or_price req, od_volume = or_volume req, od_traded = 0,
     od_status = Member SUBMITTING, od_datetime = None, od_gateway_name = gw_name\<rparr>"

text \<open>\<open>str.upper\<close> on the ASCII letters (market symbols are ASCII).\<close>

definition upper_char :: "char \<Rightarrow> char" where
  "upper_char c = (let n = (of_char c :: nat) in if 97 \<le> n \<and> n \<le> 122 then char_of (n - 32) else c)"

definition upper :: "string \<Rightarrow> string" where
  "upper s = map upper_char s"

subsection \<open>FtxRestApi: sending and cancelling orders\<close>

definition send_order :: "OrderRequest \<Rightarrow> gateway \<Rightarrow> (py_error + string) \<times> gateway" where
  "send_order req s =
    (let (n, s1) = new_order_id s;
         orderid = str_int (connect_time s + n);
         order = create_order_data req orderid (gateway_name s1);
         s2 = on_order order s1
     in case getitem DIRECTION_VT2FTX (or_direction req) of
          Inl e \<Rightarrow> (Inl e, s2)
        | Inr side \<Rightarrow>
           (case getitem ORDERTYPE_VT2FTX (or_type req) of
              Inl e \<Rightarrow> (Inl e, s2)
            | Inr type \<Rightarrow>
               (let data = \<lparr>ob_market = upper (or_symbol req), ob_side = side,
                            ob_price = or_price req, ob_size = or_volume req, ob_type = type,
                            ob_reduceOnly = False, ob_ioc = False, ob_postOnly = False,
                            ob_clientId = orderid, ob_rejectOnPriceBand = False,
                            ob_security = SIGNED\<rparr>;
                    s3 = add_request
                          \<lparr>rq_method = ''POST'', rq_path = ''/api/orders'',
                           rq_callback = On_send_order, rq_data = OrderBody data,
                           rq_extra = Some order, rq_on_error = Some On_send_order_error,
                           rq_on_failed = Some On_send_order_failed\<rparr> s2
                in (Inr (vt_orderid order), s3))))"

definition cancel_order :: "CancelRequest \<Rightarrow> gateway \<Rightarrow> gateway" where
  "cancel_order req s =
    (let data = SecurityOnly SIGNED;
         path = ''/api/orders/by_client_id/'' @ cr_orderid req;
         order = get_order (cr_orderid req) s
     in add_request
          \<lparr>rq_method = ''DELETE'', rq_path = path, rq_callback = On_cancel_order,
           rq_data = data, rq_extra = order, rq_on_error = None,
           rq_on_failed = Some On_cancel_failed\<rparr> s)"

text \<open>
  The failure callbacks. \<open>request.extra\<close> is the order object \<open>send_order\<close> built; writing
  its \<open>status\<close> when it is \<open>None\<close> raises \<open>AttributeError\<close>.
\<close>

definition on_send_order_error ::
  "exception_type \<Rightarrow> string \<Rightarrow> Request \<Rightarrow> gateway \<Rightarrow> (py_error + unit) \<times> gateway" where
  "on_send_order_error exception_type exception_value request s =
    (case rq_extra request of
       None \<Rightarrow> (Inl AttributeError, s)
     | Some order \<Rightarrow>
        (let order' = order\<lparr>od_status := Member REJECTED\<rparr>;
             s1 = on_order order' s;
             s2 = (if exception_type \<noteq> ExcConnectionError \<and> exception_type \<noteq> ExcSSLError
                   then emit (RestOnError exception_type exception_value) s1 else s1)
         in (Inr (), emit (Print (P_text exception_value)) s2)))"

definition on_send_order_failed ::
  "string \<Rightarrow> string \<Rightarrow> Request \<Rightarrow> gateway \<Rightarrow> (py_error + unit) \<times> gateway" where
  "on_send_order_failed status_code response_text request s =
    (case rq_extra request of
       None \<Rightarrow> (Inl AttributeError, s)
     | Some order \<Rightarrow>
        (let order' = order\<lparr>od_status := Member REJECTED\<rparr>;
             s1 = on_order order' s;
             s2 = write_log (Log_order_failed status_code response_text) s1
         in (Inr (), emit (Print (P_msg (Log_order_failed status_code response_text))) s2)))"

definition on_cancel_failed :: "string \<Rightarrow> string \<Rightarrow> Request \<Rightarrow> gateway \<Rightarrow> gateway" where
  "on_cancel_failed status_code response_text request s =
    (let s1 = (case rq_extra request of
                 None \<Rightarrow> s
               | Some order \<Rightarrow> on_order (order\<lparr>od_status := Member REJECTED\<rparr>) s)
     in write_log (Log_cancel_failed status_code response_text) s1)"

subsection \<open>Library functions taken as parameters\<close>

text \<open>
  Time parsing, time zones, the clock and HMAC belong to the Python library. A handler
  receives them as a record: \<open>lib_strptime\<close> is \<open>datetime.strptime\<close> with the format
  \<open>%Y-%m-%dT%H:%M:%S.%f\<close> (it raises \<open>ValueError\<close> on other text), \<open>lib_astimezone\<close> the
  change from UTC to Asia/Shanghai, \<open>lib_localize\<close> is \<open>fromtimestamp\<close> followed by
  \<open>CHINA_TZ.localize\<close>, \<open>lib_hmac\<close> the hex digest of HMAC-SHA256 (key, message) and
  \<open>lib_time\<close> is \<open>int(time.time() * 1000)\<close> as read during the call. Times are kept as
  the text the library renders.
\<close>

record library =
  lib_strptime :: "string \<Rightarrow> py_error + string"
  lib_astimezone :: "string \<Rightarrow> string"
  lib_localize :: "rat \<Rightarrow> string"
  lib_hmac :: "string \<Rightarrow> string \<Rightarrow> string"
  lib_time :: int

text \<open>\<open>created_time[:-6]\<close> drops the last six characters (the UTC offset).\<close>

definition change_datetime :: "library \<Rightarrow> string \<Rightarrow> py_error + string" where
  "change_datetime lib created_time =
    (case lib_strptime lib (take (length created_time - 6) created_time) of
       Inl e \<Rightarrow> Inl e
     | Inr t \<Rightarrow> Inr (lib_astimezone lib t))"

definition generate_datetime :: "library \<Rightarrow> rat \<Rightarrow> string" where
  "generate_datetime lib timestamp = lib_localize lib timestamp"

subsection \<open>Orders from the exchange: the REST query and the WebSocket push\<close>

text \<open>
  The \<open>OrderData(...)\<close> call that follows the status chain, the same text in
  \<open>on_query_order\<close> (lines 452-464) and \<open>on_packet\<close> (lines 727-739). The arguments are
  evaluated in the order written: the type table, the direction table, then the time.
\<close>

definition build_order :: "library \<Rightarrow> string \<Rightarrow> status_value \<Rightarrow> raw_order \<Rightarrow> py_error + OrderData" where
  "build_order lib gw_name status d =
    (case getitem ORDERTYPE_FTX2VT (ro_type d) of
       Inl e \<Rightarrow> Inl e
     | Inr type \<Rightarrow>
        (case getitem DIRECTION_FTX2VT (ro_side d) of
           Inl e \<Rightarrow> Inl e
         | Inr direction \<Rightarrow>
            (case change_datetime lib (ro_createdAt d) of
               Inl e \<Rightarrow> Inl e
             | Inr t \<Rightarrow>
                Inr \<lparr>od_symbol = ro_market d, od_exchange = ''FTX'', od_orderid = ro_clientId d,
                     od_type = type, od_direction = direction,
                     od_price = ro_price d, od_volume = ro_size d, od_traded = ro_filledSize d,
                     od_status = status, od_datetime = Some t, od_gateway_name = gw_name\<rparr>)))"

fun query_order_loop :: "library \<Rightarrow> raw_order list \<Rightarrow> gateway \<Rightarrow> (py_error + unit) \<times> gateway" where
  "query_order_loop lib [] s = (Inr (), s)"
| "query_order_loop lib (d # ds) s =
    (let status = rest_order_status d
     in case build_order lib (gateway_name s) status d of
          Inl e \<Rightarrow> (Inl e, s)
        | Inr order \<Rightarrow> query_order_loop lib ds (emit (Print (P_order order)) (on_order order s)))"

definition on_query_order :: "library \<Rightarrow> raw_order list \<Rightarrow> gateway \<Rightarrow> (py_error + unit) \<times> gateway" where
  "on_query_order lib result s =
    (case query_order_loop lib result s of
       (Inl e, s') \<Rightarrow> (Inl e, s')
     | (Inr u, s') \<Rightarrow> (Inr (), write_log Log_orders_queried s'))"

subsection \<open>FtxWebsocketApi\<close>

definition ws_connect :: "string \<Rightarrow> string \<Rightarrow> string \<Rightarrow> int \<Rightarrow> gateway \<Rightarrow> gateway" where
  "ws_connect key secret_key proxy_host proxy_port s =
    (let s1 = s\<lparr>api_key := key, api_secret_key := secret_key\<rparr>;
         s2 = emit (WsInit ''wss://ftx.com/ws/'' proxy_host proxy_port) s1;
         s3 = emit WsStart s2
     in write_log Log_ws_started s3)"

definition ping :: "gateway \<Rightarrow> gateway" where
  "ping s = send_packet Op_ping s"

definition authenticate :: "library \<Rightarrow> string \<Rightarrow> string \<Rightarrow> gateway \<Rightarrow> gateway" where
  "authenticate lib key secret_key s =
    (let timestamp = lib_time lib;
         signature_payload = str_int timestamp @ ''websocket_login'';
         signature = lib_hmac lib secret_key signature_payload
     in send_packet (Op_login key signature timestamp) s)"

definition subscribe_private_channels :: "gateway \<Rightarrow> gateway" where
  "subscribe_private_channels s =
    send_packet (Op_subscribe ''orders'' None) (send_packet (Op_subscribe ''fills'' None) s)"

definition subscribe :: "SubscribeRequest \<Rightarrow> gateway \<Rightarrow> gateway" where
  "subscribe req s =
    (if symbol_contract_map s (sr_symbol req) = None
     then write_log (Log_contract_not_found (sr_symbol req)) s
     else if map_of (subscribed s) (vt_symbol req) \<noteq> None
     then s
     else (let s1 = s\<lparr>subscribed := AList.update (vt_symbol req) req (subscribed s)\<rparr>;
               s2 = send_packet (Op_subscribe ''ticker'' (Some (sr_symbol req))) s1
           in subscribe_private_channels s2))"

definition unsubscribe :: "SubscribeRequest \<Rightarrow> gateway \<Rightarrow> gateway" where
  "unsubscribe req s =
    (if symbol_contract_map s (sr_symbol req) = None
     then write_log (Log_contract_not_found (sr_symbol req)) s
     else if map_of (subscribed s) (vt_symbol req) \<noteq> None
     then (let s1 = s\<lparr>subscribed := AList.delete (vt_symbol req) (subscribed s)\<rparr>
           in send_packet (Op_unsubscribe ''ticker'' (Some (sr_symbol req))) s1)
     else s)"

text \<open>
  \<open>on_connected\<close>: the loop runs over \<open>list(self.subscribed.values())\<close>, a copy made before
  the first call of \<open>subscribe\<close>.
\<close>

definition on_connected :: "library \<Rightarrow> gateway \<Rightarrow> gateway" where
  "on_connected lib s =
    (let s1 = write_log Log_ws_refreshed s;
         s2 = ping s1;
         s3 = authenticate lib (api_key s2) (api_secret_key s2) s2
     in fold subscribe (map snd (subscribed s3)) s3)"

definition on_disconnected :: "gateway \<Rightarrow> gateway" where
  "on_disconnected s = emit (Print P_disconnected) (write_log Log_ws_disconnected s)"

text \<open>Truth value of an optional number: \<open>None\<close> and zero are false.\<close>

definition truthy_num :: "rat option \<Rightarrow> bool" where
  "truthy_num v = (case v of None \<Rightarrow> False | Some x \<Rightarrow> x \<noteq> 0)"

text \<open>
  \<open>on_packet\<close>. A frame whose payload has not the fields of its channel fails at the first
  \<open>d[...]\<close> with \<open>KeyError\<close>. Nothing in the method catches an exception.
\<close>

definition on_packet :: "library \<Rightarrow> packet \<Rightarrow> gateway \<Rightarrow> (py_error + unit) \<times> gateway" where
  "on_packet lib packet s =
    (if pk_type packet = ''update'' then
       (let channel = pk_channel packet in
        if channel = ''ticker'' then
          (case pk_data packet of
             Ticker d \<Rightarrow>
               (let tick = \<lparr>tk_gateway_name = gateway_name s, tk_symbol = pk_market packet,
                            tk_exchange = ''FTX'', tk_datetime = generate_datetime lib (rt_time d),
                            tk_bid_price_1 = rt_bid d, tk_ask_price_1 = rt_ask d,
                            tk_bid_volume_1 = rt_bidSize d, tk_ask_volume_1 = rt_askSize d,
                            tk_last_price = rt_last d\<rparr>
                in if truthy_num (tk_last_price tick) then (Inr (), emit (OnTick tick) s)
                   else (Inr (), s))
           | _ \<Rightarrow> (Inl KeyError, s))
        else if channel = ''fills'' then
          (case pk_data packet of
             Fill d \<Rightarrow>
               (case getitem (order_id s) (rf_orderId d) of
                  Inl e \<Rightarrow> (Inl e, s)
                | Inr orderid \<Rightarrow>
                   (case getitem DIRECTION_FTX2VT (rf_side d) of
                      Inl e \<Rightarrow> (Inl e, s)
                    | Inr direction \<Rightarrow>
                       (case change_datetime lib (rf_time d) of
                          Inl e \<Rightarrow> (Inl e, s)
                        | Inr t \<Rightarrow>
                           (let trade = \<lparr>td_symbol = rf_market d, td_exchange = ''FTX'',
                                         td_orderid = orderid, td_tradeid = rf_tradeId d,
                                         td_direction = direction, td_price = rf_price d,
                                         td_volume = rf_size d, td_datetime = t,
                                         td_gateway_name = gateway_name s\<rparr>;
                                s1 = emit (Print (P_trade trade)) s;
                                s2 = emit (OnTrade trade) s1
                            in (Inr (), query_position s2)))))
           | _ \<Rightarrow> (Inl KeyError, s))
        else if channel = ''orders'' then
          (case pk_data packet of
             OrderUpdate d \<Rightarrow>
               (let status = ws_order_status d
                in case build_order lib (gateway_name s) status d of
                     Inl e \<Rightarrow> (Inl e, s)
                   | Inr order \<Rightarrow>
                      (let s1 = emit (Print (P_order order)) s;
                           s2 = s1\<lparr>order_id := (order_id s1)(ro_id d \<mapsto> ro_clientId d)\<rparr>
                       in (Inr (), on_order order s2)))
           | _ \<Rightarrow> (Inl KeyError, s))
        else (Inr (), emit (Print (P_packet packet)) s))
     else (Inr (), emit (Print (P_packet packet)) s))"

subsection \<open>FtxRestApi.query_history\<close>

text \<open>What \<open>resp.json()\<close> can return.\<close>

datatype json =
    JNull | JBool bool | JNum rat | JStr string | JArr "json list" | JObj "(string \<times> json) list"

record HistoryRequest =
  hr_symbol :: string
  hr_exchange :: string
  hr_start :: rat
  hr_end :: "rat option"
  hr_interval :: Interval

record BarData =
  bd_symbol :: string
  bd_exchange :: string
  bd_datetime :: rat
  bd_interval :: Interval
  bd_volume :: json
  bd_open_price :: json
  bd_high_price :: json
  bd_low_price :: json
  bd_close_price :: json
  bd_gateway_name :: string

text \<open>The function is annotated \<open>List[BarData]\<close>; one of its returns is the integer 0.\<close>

datatype history_result = PyInt int | Bars "BarData list"

text \<open>\<open>not data\<close>: \<open>None\<close>, \<open>False\<close>, zero and the empty string, list and dictionary are false.\<close>

fun truthy :: "json \<Rightarrow> bool" where
  "truthy JNull = False"
| "truthy (JBool b) = b"
| "truthy (JNum x) = (x \<noteq> 0)"
| "truthy (JStr t) = (t \<noteq> [])"
| "truthy (JArr xs) = (xs \<noteq> [])"
| "truthy (JObj kvs) = (kvs \<noteq> [])"

text \<open>\<open>v[k]\<close> with a string key: only a dictionary can be indexed so.\<close>

fun subscript :: "json \<Rightarrow> string \<Rightarrow> py_error + json" where
  "subscript (JObj kvs) k = getitem (map_of kvs) k"
| "subscript v k = Inl TypeError"

text \<open>Iterating: a list gives its elements, a dictionary its keys, a string its characters.\<close>

fun iterate :: "json \<Rightarrow> py_error + json list" where
  "iterate (JArr xs) = Inr xs"
| "iterate (JObj kvs) = Inr (map (\<lambda>kv. JStr (fst kv)) kvs)"
| "iterate (JStr t) = Inr (map (\<lambda>c. JStr [c]) t)"
| "iterate v = Inl TypeError"

text \<open>\<open>his_data["time"]/1000\<close>: a number (or a Boolean, an integer in Python) can be divided.\<close>

fun div1000 :: "json \<Rightarrow> py_error + rat" where
  "div1000 (JNum x) = Inr (x / 1000)"
| "div1000 (JBool b) = Inr (of_bool b / 1000)"
| "div1000 v = Inl TypeError"

definition make_bar :: "HistoryRequest \<Rightarrow> string \<Rightarrow> json \<Rightarrow> py_error + BarData" where
  "make_bar req gw_name his_data =
    (case subscript his_data ''time'' of Inl e \<Rightarrow> Inl e | Inr tm \<Rightarrow>
     case div1000 tm of Inl e \<Rightarrow> Inl e | Inr t \<Rightarrow>
     case subscript his_data ''volume'' of Inl e \<Rightarrow> Inl e | Inr volume \<Rightarrow>
     case subscript his_data ''open'' of Inl e \<Rightarrow> Inl e | Inr open_price \<Rightarrow>
     case subscript his_data ''high'' of Inl e \<Rightarrow> Inl e | Inr high_price \<Rightarrow>
     case subscript his_data ''low'' of Inl e \<Rightarrow> Inl e | Inr low_price \<Rightarrow>
     case subscript his_data ''close'' of Inl e \<Rightarrow> Inl e | Inr close_price \<Rightarrow>
       Inr \<lparr>bd_symbol = hr_symbol req, bd_exchange = hr_exchange req, bd_datetime = t,
            bd_interval = hr_interval req, bd_volume = volume, bd_open_price = open_price,
            bd_high_price = high_price, bd_low_price = low_price,
            bd_close_price = close_price, bd_gateway_name = gw_name\<rparr>)"

fun history_loop :: "HistoryRequest \<Rightarrow> string \<Rightarrow> json list \<Rightarrow> BarData list \<Rightarrow> py_error + BarData list" where
  "history_loop req gw_name [] history = Inr history"
| "history_loop req gw_name (his_data # rest) history =
    (case make_bar req gw_name his_data of
       Inl e \<Rightarrow> Inl e
     | Inr bar \<Rightarrow> history_loop req gw_name rest (history @ [bar]))"

text \<open>
  \<open>query_history\<close>. \<open>data\<close> is what \<open>resp.json()\<close> returned for the synchronous request.
\<close>

definition query_history ::
  "HistoryRequest \<Rightarrow> json \<Rightarrow> gateway \<Rightarrow> (py_error + history_result) \<times> gateway" where
  "query_history req data s =
    (let history = [];
         start = hr_start req
     in case hr_end req of
          None \<Rightarrow> (Inl TypeError, s)
        | Some end \<Rightarrow>
           (case getitem INTERVAL_VT2FTX (hr_interval req) of
              Inl e \<Rightarrow> (Inl e, s)
            | Inr resolution \<Rightarrow>
               (let path = ''/api/markets/'' @ hr_symbol req @ ''/candles?'';
                    s1 = emit (RestRequest ''GET'' path (SecurityOnly NONE) resolution start end) s
                in if \<not> truthy data then (Inr (PyInt 0), s1)
                   else (case subscript data ''result'' of
                           Inl e \<Rightarrow> (Inl e, s1)
                         | Inr result \<Rightarrow>
                            (case iterate result of
                               Inl e \<Rightarrow> (Inl e, s1)
                             | Inr items \<Rightarrow>
                                (case history_loop req (gateway_name s1) items history of
                                   Inl e \<Rightarrow> (Inl e, s1)
                                 | Inr bars \<Rightarrow> (Inr (Bars bars), s1)))))))"

subsection \<open>Reading the effects\<close>

text \<open>The client order ids of the orders published so far, and the frames sent so far.\<close>

fun order_ids :: "effect list \<Rightarrow> string list" where
  "order_ids [] = []"
| "order_ids (OnOrder order # es) = od_orderid order # order_ids es"
| "order_ids (e # es) = order_ids es"

definition published_ids :: "gateway \<Rightarrow> string list" where
  "published_ids s = order_ids (effects s)"

fun sent_frames :: "effect list \<Rightarrow> frame list" where
  "sent_frames [] = []"
| "sent_frames (SendPacket f # es) = f # sent_frames es"
| "sent_frames (e # es) = sent_frames es"

text \<open>The ids published between two states of one run.\<close>

definition new_order_ids :: "gateway \<Rightarrow> gateway \<Rightarrow> string list" where
  "new_order_ids before after = drop (length (published_ids before)) (published_ids after)"

subsection \<open>Sequences of calls on the REST connector\<close>

text \<open>
  A connection lifetime begins with \<open>connect\<close>; within it the host calls \<open>send_order\<close>
  any number of times. An exception of \<open>send_order\<close> goes to the caller and the gateway
  object lives on, so a sequence of calls runs on the state each call leaves.
\<close>

datatype rest_call = Connect nat string string string int | SendOrder OrderRequest

fun do_call :: "rest_call \<Rightarrow> gateway \<Rightarrow> gateway" where
  "do_call (Connect now key secret proxy_host proxy_port) s = connect now key secret proxy_host proxy_port s"
| "do_call (SendOrder req) s = snd (send_order req s)"

definition rest_calls :: "rest_call list \<Rightarrow> gateway \<Rightarrow> gateway" where
  "rest_calls calls s = fold do_call calls s"

definition send_orders :: "OrderRequest list \<Rightarrow> gateway \<Rightarrow> gateway" where
  "send_orders reqs s = rest_calls (map SendOrder reqs) s"

subsection \<open>Concurrent callers of \<open>send_order\<close>\<close>

text \<open>
  Line 335 is \<open>orderid = str(self.connect_time + self._new_order_id())\<close>. A calling thread
  first reads \<open>self.connect_time\<close>, then enters \<open>_new_order_id\<close>, whose body runs under
  \<open>order_count_lock\<close> and is therefore one step no other caller can split, and then
  goes on with the rest of \<open>send_order\<close> (lines 337-368), which touches neither the
  counter nor \<open>connect_time\<close>. \<open>publish_and_post\<close> is that rest, with the id given.
\<close>

definition publish_and_post :: "OrderRequest \<Rightarrow> string \<Rightarrow> gateway \<Rightarrow> (py_error + string) \<times> gateway" where
  "publish_and_post req orderid s1 =
    (let order = create_order_data req orderid (gateway_name s1);
         s2 = on_order order s1
     in case getitem DIRECTION_VT2FTX (or_direction req) of
          Inl e \<Rightarrow> (Inl e, s2)
        | Inr side \<Rightarrow>
           (case getitem ORDERTYPE_VT2FTX (or_type req) of
              Inl e \<Rightarrow> (Inl e, s2)
            | Inr type \<Rightarrow>
               (let data = \<lparr>ob_market = upper (or_symbol req), ob_side = side,
                            ob_price = or_price req, ob_size = or_volume req, ob_type = type,
                            ob_reduceOnly = False, ob_ioc = False, ob_postOnly = False,
                            ob_clientId = orderid, ob_rejectOnPriceBand = False,
                            ob_security = SIGNED\<rparr>;
                    s3 = add_request
                          \<lparr>rq_method = ''POST'', rq_path = ''/api/orders'',
                           rq_callback = On_send_order, rq_data = OrderBody data,
                           rq_extra = Some order, rq_on_error = Some On_send_order_error,
                           rq_on_failed = Some On_send_order_failed\<rparr> s2
                in (Inr (vt_orderid order), s3))))"

text \<open>
  Where a caller stands: outside \<open>send_order\<close>; inside, having read \<open>connect_time\<close>; or
  back from \<open>_new_order_id\<close> with the count it was given. A schedule names, step by
  step, the thread that moves next (and the request it passes should it begin a call), so
  every interleaving of the callers is a schedule. \<open>handed_out\<close> records the numbers
  \<open>connect_time + count\<close> in the order the lock was taken.
\<close>

datatype caller = Idle | Entered OrderRequest int | Holding OrderRequest int int

record system =
  shared :: gateway
  callers :: "nat \<Rightarrow> caller"
  handed_out :: "int list"

definition caller_step :: "nat \<Rightarrow> OrderRequest \<Rightarrow> system \<Rightarrow> system" where
  "caller_step t req sys =
    (case callers sys t of
       Idle \<Rightarrow> sys\<lparr>callers := (callers sys)(t := Entered req (connect_time (shared sys)))\<rparr>
     | Entered r ct \<Rightarrow>
        (let (n, s1) = new_order_id (shared sys)
         in sys\<lparr>shared := s1, callers := (callers sys)(t := Holding r ct n),
                handed_out := handed_out sys @ [ct + n]\<rparr>)
     | Holding r ct n \<Rightarrow>
        sys\<lparr>shared := snd (publish_and_post r (str_int (ct + n)) (shared sys)),
            callers := (callers sys)(t := Idle)\<rparr>)"

definition run_callers :: "(nat \<times> OrderRequest) list \<Rightarrow> system \<Rightarrow> system" where
  "run_callers schedule sys = fold (\<lambda>(t, req). caller_step t req) schedule sys"

definition start :: "gateway \<Rightarrow> system" where
  "start s = \<lparr>shared = s, callers = (\<lambda>t. Idle), handed_out = []\<rparr>"

subsection \<open>Invariants used in the proofs\<close>

text \<open>
  The numbers handed out after \<open>k\<close> passes through the lock, starting from \<open>s0\<close>; the
  invariant of the concurrent system; the registry's keys are the \<open>vt_symbol\<close> of their
  requests; and the value of a string of decimal digits.
\<close>

definition issued :: "gateway \<Rightarrow> nat \<Rightarrow> int list" where
  "issued s0 k = map (\<lambda>i. connect_time s0 + (order_count s0 + 1 + int i)) [0..<k]"

definition ids_inv :: "gateway \<Rightarrow> system \<Rightarrow> bool" where
  "ids_inv s0 sys \<longleftrightarrow>
     (\<exists>k pub.
        handed_out sys = issued s0 k \<and>
        published_ids (shared sys) = published_ids s0 @ pub \<and>
        connect_time (shared sys) = connect_time s0 \<and>
        order_count (shared sys) = order_count s0 + int k \<and>
        distinct pub \<and>
        set pub \<subseteq> str_int ` set (handed_out sys) \<and>
        (\<forall>t r ct n. callers sys t = Holding r ct n \<longrightarrow> str_int (ct + n) \<notin> set pub) \<and>
        (\<forall>t r ct. callers sys t = Entered r ct \<longrightarrow> ct = connect_time s0) \<and>
        (\<forall>t r ct n. callers sys t = Holding r ct n \<longrightarrow> ct + n \<in> set (handed_out sys)) \<and>
        (\<forall>t t' r r' ct ct' n n'.
           callers sys t = Holding r ct n \<and> callers sys t' = Holding r' ct' n' \<and> t \<noteq> t'
           \<longrightarrow> ct + n \<noteq> ct' + n'))"

definition registry_keys_ok :: "gateway \<Rightarrow> bool" where
  "registry_keys_ok s = list_all (\<lambda>kr. fst kr = vt_symbol (snd kr)) (subscribed s)"

definition decode :: "string \<Rightarrow> nat" where
  "decode cs = foldl (\<lambda>a c. 10 * a + ((of_char c :: nat) - 48)) 0 cs"

subsection \<open>Example inputs\<close>

text \<open>
  Concrete inputs for the closed statements below: a library whose time functions return
  their argument, an exchange order, a fill, a cancel and a history request, two contracts,
  two subscribe requests and an order request.
\<close>

abbreviation (input) example_lib :: library where
  "example_lib \<equiv>
    \<lparr>lib_strptime = (\<lambda>t. Inr t), lib_astimezone = (\<lambda>t. t), lib_localize = (\<lambda>x. []),
     lib_hmac = (\<lambda>k m. m), lib_time = 1630000000000\<rparr>"

abbreviation (input) raw_example :: "string \<Rightarrow> rat \<Rightarrow> rat \<Rightarrow> rat \<Rightarrow> raw_order" where
  "raw_example st sz filled remaining \<equiv>
    \<lparr>ro_id = 5, ro_clientId = ''7'', ro_market = ''BTC-PERP'', ro_type = ''limit'',
     ro_side = ''buy'', ro_price = 100, ro_size = sz, ro_status = st,
     ro_filledSize = filled, ro_remainingSize = remaining,
     ro_createdAt = ''2021-09-01T10:00:00.000000+00:00''\<rparr>"

abbreviation (input) orders_frame :: "raw_order \<Rightarrow> packet" where
  "orders_frame d \<equiv>
    \<lparr>pk_type = ''update'', pk_channel = ''orders'', pk_market = [], pk_data = OrderUpdate d\<rparr>"

abbreviation (input) unrecognized_order :: OrderData where
  "unrecognized_order \<equiv>
    \<lparr>od_symbol = ''BTC-PERP'', od_exchange = ''FTX'', od_orderid = ''7'', od_type = LIMIT,
     od_direction = LONG, od_price = 100, od_volume = 10, od_traded = 4,
     od_status = Text ''other status'',
     od_datetime = Some ''2021-09-01T10:00:00.000000'', od_gateway_name = ''FTX''\<rparr>"

abbreviation (input) fills_frame :: "raw_fill \<Rightarrow> packet" where
  "fills_frame d \<equiv>
    \<lparr>pk_type = ''update'', pk_channel = ''fills'', pk_market = [], pk_data = Fill d\<rparr>"

abbreviation (input) fill_example :: raw_fill where
  "fill_example \<equiv>
    \<lparr>rf_market = ''BTC-PERP'', rf_orderId = 5, rf_tradeId = 9, rf_side = ''buy'',
     rf_price = 100, rf_size = 1, rf_time = ''2021-09-01T10:00:00.000000+00:00''\<rparr>"

abbreviation (input) delete_request :: "string \<Rightarrow> Request" where
  "delete_request orderid \<equiv>
    \<lparr>rq_method = ''DELETE'', rq_path = ''/api/orders/by_client_id/'' @ orderid,
     rq_callback = On_cancel_order, rq_data = SecurityOnly SIGNED, rq_extra = None,
     rq_on_error = None, rq_on_failed = Some On_cancel_failed\<rparr>"

abbreviation (input) history_example :: HistoryRequest where
  "history_example \<equiv>
    \<lparr>hr_symbol = ''BTC-PERP'', hr_exchange = ''FTX'', hr_start = 1630000000,
     hr_end = Some 1630003600, hr_interval = MINUTE\<rparr>"

abbreviation (input) contract_example :: "string \<Rightarrow> ContractData" where
  "contract_example symb \<equiv>
    \<lparr>cd_symbol = symb, cd_pricetick = 1, cd_min_volume = 1, cd_product = FUTURES\<rparr>"

abbreviation (input) two_contracts :: "string \<rightharpoonup> ContractData" where
  "two_contracts \<equiv> [''BTC-PERP'' \<mapsto> contract_example ''BTC-PERP'',
                      ''ETH-PERP'' \<mapsto> contract_example ''ETH-PERP'']"

abbreviation (input) req_A :: SubscribeRequest where
  "req_A \<equiv> \<lparr>sr_symbol = ''BTC-PERP'', sr_exchange = ''FTX''\<rparr>"

abbreviation (input) req_B :: SubscribeRequest where
  "req_B \<equiv> \<lparr>sr_symbol = ''ETH-PERP'', sr_exchange = ''FTX''\<rparr>"

abbreviation (input) subscribed_AB :: gateway where
  "subscribed_AB \<equiv>
    subscribe req_B (subscribe req_A
      (ws_connect ''key'' ''secret'' [] 0 (init_gateway ''FTX'' two_contracts)))"

abbreviation (input) order_example :: OrderRequest where
  "order_example \<equiv>
    \<lparr>or_symbol = ''btc-perp'', or_exchange = ''FTX'', or_direction = LONG, or_type = LIMIT,
     or_volume = 1, or_price = 100\<rparr>"

section \<open>Properties\<close>

subsection \<open>Order status reconciliation\<close>

lemma rest_ws_status_same: "ws_order_status d = rest_order_status d"
  by (simp add: ws_order_status_def rest_order_status_def)

lemma rest_status_table:
  "rest_order_status d =
    (case first_match spec_table d of Some st \<Rightarrow> Member st | None \<Rightarrow> Text ''other status'')"
  by (auto simp: rest_order_status_def spec_table_def Let_def)

text \<open>
  C3, as amended. The chain written in \<open>on_query_order\<close> and the one written in \<open>on_packet\<close>
  compute the same status. Both evaluate the five rules of the specification's table
  first-match in its order; only when no rule matches do they leave the table, with the
  string \<open>other status\<close>. For an order with \<open>filledSize == size\<close> and
  \<open>remainingSize == 0\<close> the result is ALLTRADED, whatever the status string (in particular
  for \<open>closed\<close> and for unknown strings), except where one of the first two rules matches
  before: status \<open>new\<close>, or status \<open>open\<close> with \<open>filledSize == 0\<close>, give NOTTRADED.
\<close>

theorem order_status_first_match:
  "ws_order_status d = rest_order_status d \<and>
   rest_order_status d =
     (case first_match spec_table d of Some st \<Rightarrow> Member st | None \<Rightarrow> Text ''other status'') \<and>
   (ro_filledSize d = ro_size d \<and> ro_remainingSize d = 0 \<longrightarrow>
      rest_order_status d =
        (if ro_status d = ''new'' \<or> (ro_status d = ''open'' \<and> ro_filledSize d = 0)
         then Member NOTTRADED else Member ALLTRADED))"
proof (intro conjI impI)
  show "ws_order_status d = rest_order_status d" by (rule rest_ws_status_same)
  show "rest_order_status d =
     (case first_match spec_table d of Some st \<Rightarrow> Member st | None \<Rightarrow> Text ''other status'')"
    by (rule rest_status_table)
next
  assume "ro_filledSize d = ro_size d \<and> ro_remainingSize d = 0"
  then show "rest_order_status d =
        (if ro_status d = ''new'' \<or> (ro_status d = ''open'' \<and> ro_filledSize d = 0)
         then Member NOTTRADED else Member ALLTRADED)"
    by (auto simp: rest_order_status_def Let_def)
qed

text \<open>
  C3, witness: the specification's own example, status \<open>gibberish\<close> with size 1, filled 1,
  remaining 0, and a closed order filled 10 of 10.
\<close>

theorem order_status_first_match_witness:
  "ro_filledSize (raw_example ''gibberish'' 1 1 0) = ro_size (raw_example ''gibberish'' 1 1 0) \<and>
   ro_remainingSize (raw_example ''gibberish'' 1 1 0) = 0 \<and>
   ws_order_status (raw_example ''gibberish'' 1 1 0) = Member ALLTRADED \<and>
   rest_order_status (raw_example ''closed'' 10 10 0) = Member ALLTRADED"
proof -
  let ?g = "raw_example ''gibberish'' 1 1 0" and ?c = "raw_example ''closed'' 10 10 0"
  have hg: "ro_filledSize ?g = ro_size ?g \<and> ro_remainingSize ?g = 0" by simp
  have hc: "ro_filledSize ?c = ro_size ?c \<and> ro_remainingSize ?c = 0" by simp
  from order_status_first_match [of ?g] hg
  have "ws_order_status ?g = rest_order_status ?g"
    and "rest_order_status ?g =
      (if ro_status ?g = ''new'' \<or> (ro_status ?g = ''open'' \<and> ro_filledSize ?g = 0)
       then Member NOTTRADED else Member ALLTRADED)"
    by blast+
  then have g: "ws_order_status ?g = Member ALLTRADED" by simp
  from order_status_first_match [of ?c] hc
  have "rest_order_status ?c =
      (if ro_status ?c = ''new'' \<or> (ro_status ?c = ''open'' \<and> ro_filledSize ?c = 0)
       then Member NOTTRADED else Member ALLTRADED)"
    by blast
  then have c: "rest_order_status ?c = Member ALLTRADED" by simp
  from hg g c show ?thesis by blast
qed

text \<open>
  C3, counterexample to the claim as stated ("for every input with filledSize == size and
  remainingSize == 0 the result is ALLTRADED"): status \<open>new\<close>, size 1, filled 1, remaining 0
  is caught by the first rule and yields NOTTRADED.
\<close>

theorem all_traded_for_every_status_counterexample:
  "ro_filledSize (raw_example ''new'' 1 1 0) = ro_size (raw_example ''new'' 1 1 0) \<and>
   ro_remainingSize (raw_example ''new'' 1 1 0) = 0 \<and>
   rest_order_status (raw_example ''new'' 1 1 0) = Member NOTTRADED \<and>
   ws_order_status (raw_example ''new'' 1 1 0) \<noteq> Member ALLTRADED"
  by (simp add: rest_order_status_def ws_order_status_def)

text \<open>The five examples of the specification (section 8).\<close>

lemma spec_examples:
  "rest_order_status (raw_example ''new'' 10 0 10) = Member NOTTRADED"
  "rest_order_status (raw_example ''open'' 10 4 6) = Member PARTTRADED"
  "rest_order_status (raw_example ''closed'' 10 6 4) = Member CANCELLED"
  "rest_order_status (raw_example ''open'' 10 10 0) = Member ALLTRADED"
  "rest_order_status (raw_example ''gibberish'' 1 1 0) = Member ALLTRADED"
  by (simp_all add: rest_order_status_def)

text \<open>
  C4 fails on the code. The order \<open>{status: "gibberish", size: 10, filledSize: 4,
  remainingSize: 6}\<close> matches no rule of the table. Pushed on the \<open>orders\<close> channel it
  is printed and published with the Python string \<open>other status\<close> in its status field,
  which is no member of \<open>Status\<close>, and nothing is written to the log; returned by the REST
  order query it is published with the same string, and the only log line is the one written
  after every order query.
\<close>

theorem unmatched_status_is_passed_through:
  "first_match spec_table (raw_example ''gibberish'' 10 4 6) = None \<and>
   fst (on_packet example_lib (orders_frame (raw_example ''gibberish'' 10 4 6))
         (init_gateway ''FTX'' Map.empty)) = Inr () \<and>
   effects (snd (on_packet example_lib (orders_frame (raw_example ''gibberish'' 10 4 6))
         (init_gateway ''FTX'' Map.empty)))
     = [Print (P_order unrecognized_order), OnOrder unrecognized_order] \<and>
   effects (snd (on_query_order example_lib [raw_example ''gibberish'' 10 4 6]
         (init_gateway ''FTX'' Map.empty)))
     = [OnOrder unrecognized_order, Print (P_order unrecognized_order),
        WriteLog Log_orders_queried]"
  by (simp add: spec_table_def on_packet_def ws_order_status_def rest_order_status_def
      build_order_def getitem_def ORDERTYPE_FTX2VT_def DIRECTION_FTX2VT_def change_datetime_def
      init_gateway_def emit_def on_order_def on_query_order_def write_log_def Let_def)

subsection \<open>Fills for an order the gateway does not know\<close>

text \<open>
  C2, as amended. When the exchange order id of a \<open>fills\<close> frame is not a key of
  \<open>gateway.order_id\<close>, the lookup in \<open>on_packet\<close> raises \<open>KeyError\<close> and the exception
  leaves the handler: no trade is built or published, nothing is logged or printed, no
  position query is issued, and the state of the gateway is as before the frame.
\<close>

theorem fill_for_unknown_order_raises:
  assumes "pk_type p = ''update''" and "pk_channel p = ''fills''" and "pk_data p = Fill d"
    and "order_id s (rf_orderId d) = None"
  shows "on_packet lib p s = (Inl KeyError, s)"
  using assms by (simp add: on_packet_def getitem_def)

text \<open>C2, witness: a fill for exchange order 5 arriving at a fresh gateway.\<close>

theorem fill_for_unknown_order_raises_witness:
  "order_id (init_gateway ''FTX'' Map.empty) (rf_orderId fill_example) = None \<and>
   on_packet example_lib (fills_frame fill_example) (init_gateway ''FTX'' Map.empty)
     = (Inl KeyError, init_gateway ''FTX'' Map.empty)"
proof -
  have "order_id (init_gateway ''FTX'' Map.empty) (rf_orderId fill_example) = None"
    by (simp add: init_gateway_def)
  then show ?thesis
    using fill_for_unknown_order_raises
      [of "fills_frame fill_example" fill_example "init_gateway ''FTX'' Map.empty" example_lib]
    by simp
qed

text \<open>
  C2, counterexample to the claim as stated (the fill is dropped with a log and no
  exception leaves the handler): for that frame the handler ends in \<open>KeyError\<close> and has
  written nothing.
\<close>

theorem fill_dropped_without_raising_counterexample:
  "order_id (init_gateway ''FTX'' Map.empty) 5 = None \<and>
   fst (on_packet example_lib (fills_frame fill_example) (init_gateway ''FTX'' Map.empty))
     = Inl KeyError \<and>
   effects (snd (on_packet example_lib (fills_frame fill_example)
     (init_gateway ''FTX'' Map.empty))) = []"
  by (simp add: on_packet_def getitem_def init_gateway_def)

subsection \<open>Cancelling an order that is not cached\<close>

text \<open>
  C8, as amended. \<open>cancel_order\<close> with a client order id that is not in the cached order
  map still queues one signed DELETE request, addressed by that id and carrying no order
  (\<open>extra\<close> is \<open>None\<close>); it changes nothing else. Should that request fail,
  \<open>on_cancel_failed\<close> only writes its log line: no order is marked or published.
\<close>

theorem cancel_unknown_order_sends_delete:
  assumes "get_order (cr_orderid req) s = None"
  shows "cancel_order req s = s\<lparr>effects := effects s @ [AddRequest (delete_request (cr_orderid req))]\<rparr>
     \<and> on_cancel_failed code text (delete_request (cr_orderid req)) t
         = t\<lparr>effects := effects t @ [WriteLog (Log_cancel_failed code text)]\<rparr>"
  using assms
  by (simp add: cancel_order_def add_request_def emit_def on_cancel_failed_def write_log_def)

text \<open>C8, witness: cancelling order 42 at a fresh gateway.\<close>

theorem cancel_unknown_order_sends_delete_witness:
  "get_order ''42'' (init_gateway ''FTX'' Map.empty) = None \<and>
   effects (cancel_order \<lparr>cr_orderid = ''42'', cr_symbol = ''BTC-PERP'', cr_exchange = ''FTX''\<rparr>
     (init_gateway ''FTX'' Map.empty)) = [AddRequest (delete_request ''42'')]"
proof -
  have h: "get_order (cr_orderid \<lparr>cr_orderid = ''42'', cr_symbol = ''BTC-PERP'', cr_exchange = ''FTX''\<rparr>)
      (init_gateway ''FTX'' Map.empty) = None"
    by (simp add: get_order_def init_gateway_def)
  from cancel_unknown_order_sends_delete [OF h] h show ?thesis
    by (simp add: init_gateway_def)
qed

text \<open>
  C8, counterexample to the claim as stated (an unknown id makes \<open>cancelOrder\<close> a no-op
  and no DELETE is issued): cancelling the unknown order 42 changes the state, by the
  DELETE request it queues.
\<close>

theorem cancel_unknown_order_noop_counterexample:
  "get_order ''42'' (init_gateway ''FTX'' Map.empty) = None \<and>
   cancel_order \<lparr>cr_orderid = ''42'', cr_symbol = ''BTC-PERP'', cr_exchange = ''FTX''\<rparr>
     (init_gateway ''FTX'' Map.empty) \<noteq> init_gateway ''FTX'' Map.empty \<and>
   effects (cancel_order \<lparr>cr_orderid = ''42'', cr_symbol = ''BTC-PERP'', cr_exchange = ''FTX''\<rparr>
     (init_gateway ''FTX'' Map.empty)) = [AddRequest (delete_request ''42'')]"
  by (simp add: cancel_order_def add_request_def emit_def get_order_def init_gateway_def)

subsection \<open>History query with no data\<close>

lemma query_history_no_data:
  "hr_end req = Some e \<Longrightarrow> hr_interval req \<noteq> TICK \<Longrightarrow> \<not> truthy data \<Longrightarrow>
   fst (query_history req data s) = Inr (PyInt 0)"
  by (cases "hr_interval req") (simp_all add: query_history_def getitem_def INTERVAL_VT2FTX_def Let_def)

text \<open>
  C9 fails on the code. When the body of the response is empty (\<open>{}\<close>, \<open>[]\<close> or
  \<open>null\<close>), \<open>query_history\<close> returns the integer 0, not an empty list of bars. Only a
  response that carries an empty \<open>result\<close> list yields the empty list.
\<close>

theorem query_history_empty_body_returns_zero:
  "fst (query_history history_example (JObj []) (init_gateway ''FTX'' Map.empty)) = Inr (PyInt 0) \<and>
   fst (query_history history_example (JArr []) (init_gateway ''FTX'' Map.empty)) = Inr (PyInt 0) \<and>
   fst (query_history history_example JNull (init_gateway ''FTX'' Map.empty)) = Inr (PyInt 0) \<and>
   fst (query_history history_example (JObj [(''success'', JBool True), (''result'', JArr [])])
         (init_gateway ''FTX'' Map.empty)) = Inr (Bars [])"
  by (simp add: query_history_def getitem_def INTERVAL_VT2FTX_def Let_def)

subsection \<open>Sending an order\<close>

lemma send_order_snd:
  "snd (send_order req s) =
    (let orderid = str_int (connect_time s + (order_count s + 1));
         order = create_order_data req orderid (gateway_name s);
         s2 = on_order order (s\<lparr>order_count := order_count s + 1\<rparr>)
     in case getitem DIRECTION_VT2FTX (or_direction req) of
          Inl e \<Rightarrow> s2
        | Inr side \<Rightarrow>
           (case getitem ORDERTYPE_VT2FTX (or_type req) of
              Inl e \<Rightarrow> s2
            | Inr type \<Rightarrow>
               add_request
                 \<lparr>rq_method = ''POST'', rq_path = ''/api/orders'',
                  rq_callback = On_send_order,
                  rq_data = OrderBody
                    \<lparr>ob_market = upper (or_symbol req), ob_side = side,
                     ob_price = or_price req, ob_size = or_volume req, ob_type = type,
                     ob_reduceOnly = False, ob_ioc = False, ob_postOnly = False,
                     ob_clientId = orderid, ob_rejectOnPriceBand = False,
                     ob_security = SIGNED\<rparr>,
                  rq_extra = Some order, rq_on_error = Some On_send_order_error,
                  rq_on_failed = Some On_send_order_failed\<rparr> s2))"
  by (simp add: send_order_def new_order_id_def Let_def split: sum.splits)

lemma rejected_after_error:
  "rq_extra post = Some order \<Longrightarrow>
   get_order (od_orderid order) (snd (on_send_order_error et ev post t))
     = Some (order\<lparr>od_status := Member REJECTED\<rparr>)"
  by (simp add: on_send_order_error_def on_order_def emit_def get_order_def Let_def)

lemma rejected_after_failed:
  "rq_extra post = Some order \<Longrightarrow>
   get_order (od_orderid order) (snd (on_send_order_failed code text post t))
     = Some (order\<lparr>od_status := Member REJECTED\<rparr>)"
  by (simp add: on_send_order_failed_def on_order_def emit_def get_order_def write_log_def Let_def)

text \<open>
  C7. Every call of \<open>send_order\<close> builds the order under the new client order id in status
  SUBMITTING, caches it in the order map and publishes it, and only then queues the POST:
  the effects of the call are the publication followed by at most one request. This also
  holds when the call ends in an exception (a direction or order type the exchange tables
  lack): then no request is queued at all. The request carries the order and names the
  two failure callbacks; whenever one of them runs for this request, in whatever state,
  the order cached under that id is the same order in status REJECTED.
\<close>

theorem send_order_submitting_before_post:
  "(let orderid = str_int (connect_time s + (order_count s + 1));
        order = create_order_data req orderid (gateway_name s);
        s' = snd (send_order req s)
    in od_status order = Member SUBMITTING \<and> od_orderid order = orderid \<and>
       get_order orderid s' = Some order \<and>
       (\<exists>later. effects s' = effects s @ OnOrder order # later \<and>
          (case fst (send_order req s) of
             Inl e \<Rightarrow> later = []
           | Inr handle \<Rightarrow>
              handle = vt_orderid order \<and>
              (\<exists>post. later = [AddRequest post] \<and> rq_method post = ''POST'' \<and>
                 rq_extra post = Some order \<and>
                 rq_on_error post = Some On_send_order_error \<and>
                 rq_on_failed post = Some On_send_order_failed \<and>
                 (\<forall>t et ev. get_order orderid (snd (on_send_order_error et ev post t))
                     = Some (order\<lparr>od_status := Member REJECTED\<rparr>)) \<and>
                 (\<forall>t code text. get_order orderid (snd (on_send_order_failed code text post t))
                     = Some (order\<lparr>od_status := Member REJECTED\<rparr>))))))"
  apply (simp only: Let_def)
  apply (intro conjI)
     apply (simp add: create_order_data_def)
    apply (simp add: create_order_data_def)
   apply (simp add: send_order_snd Let_def get_order_def on_order_def emit_def add_request_def
      create_order_data_def split: sum.splits)
  apply (cases "getitem DIRECTION_VT2FTX (or_direction req)";
         cases "getitem ORDERTYPE_VT2FTX (or_type req)")
     apply (simp_all add: send_order_def new_order_id_def Let_def on_order_def emit_def
      add_request_def)
  apply (simp add: on_send_order_error_def on_send_order_failed_def on_order_def emit_def
      get_order_def write_log_def Let_def create_order_data_def)
  done

subsection \<open>Subscriptions\<close>

lemma subscribe_known:
  assumes "symbol_contract_map s (sr_symbol req) = Some c"
  shows "subscribe req s =
    (case map_of (subscribed s) (vt_symbol req) of
       Some r \<Rightarrow> s
     | None \<Rightarrow>
        s\<lparr>subscribed := AList.update (vt_symbol req) req (subscribed s),
          effects := effects s @
            [SendPacket (Op_subscribe ''ticker'' (Some (sr_symbol req))),
             SendPacket (Op_subscribe ''fills'' None),
             SendPacket (Op_subscribe ''orders'' None)]\<rparr>)"
  using assms
  by (simp add: subscribe_def Let_def subscribe_private_channels_def send_packet_def emit_def
      split: option.splits)

lemma update_fresh: "map_of al k = None \<Longrightarrow> AList.update k v al = al @ [(k, v)]"
  by (induction al) auto

text \<open>
  C10. For a request whose symbol is in the contract map, a second call of \<open>subscribe\<close>
  changes nothing: the state after two calls is the state after one. The two calls
  together send the ticker frame of the symbol once, followed by the fills and orders
  frames, and add the request at the end of the registry; when the key was registered
  before, they send nothing and leave the registry alone.
\<close>

theorem subscribe_is_idempotent:
  assumes "symbol_contract_map s (sr_symbol req) \<noteq> None"
  shows "subscribe req (subscribe req s) = subscribe req s \<and>
    effects (subscribe req (subscribe req s)) =
      effects s @
        (if map_of (subscribed s) (vt_symbol req) = None
         then [SendPacket (Op_subscribe ''ticker'' (Some (sr_symbol req))),
               SendPacket (Op_subscribe ''fills'' None),
               SendPacket (Op_subscribe ''orders'' None)]
         else []) \<and>
    subscribed (subscribe req (subscribe req s)) =
      (if map_of (subscribed s) (vt_symbol req) = None
       then subscribed s @ [(vt_symbol req, req)] else subscribed s)"
proof -
  from assms obtain c where c: "symbol_contract_map s (sr_symbol req) = Some c" by blast
  show ?thesis
  proof (cases "map_of (subscribed s) (vt_symbol req)")
    case None
    let ?s1 = "s\<lparr>subscribed := AList.update (vt_symbol req) req (subscribed s),
              effects := effects s @
                [SendPacket (Op_subscribe ''ticker'' (Some (sr_symbol req))),
                 SendPacket (Op_subscribe ''fills'' None),
                 SendPacket (Op_subscribe ''orders'' None)]\<rparr>"
    from None c have first: "subscribe req s = ?s1" by (simp add: subscribe_known)
    have c1: "symbol_contract_map ?s1 (sr_symbol req) = Some c" using c by simp
    have "map_of (subscribed ?s1) (vt_symbol req) = Some req" by (simp add: update_conv')
    with subscribe_known [OF c1] have second: "subscribe req ?s1 = ?s1" by simp
    from first second None show ?thesis by (simp add: update_fresh)
  next
    case (Some r)
    with c have "subscribe req s = s" by (simp add: subscribe_known)
    with Some show ?thesis by simp
  qed
qed

text \<open>C10, witness: subscribing twice to BTC-PERP at a fresh gateway that knows the contract.\<close>

theorem subscribe_is_idempotent_witness:
  "symbol_contract_map (init_gateway ''FTX'' two_contracts) (sr_symbol req_A) \<noteq> None \<and>
   effects (subscribe req_A (subscribe req_A (init_gateway ''FTX'' two_contracts)))
     = [SendPacket (Op_subscribe ''ticker'' (Some ''BTC-PERP'')),
        SendPacket (Op_subscribe ''fills'' None),
        SendPacket (Op_subscribe ''orders'' None)] \<and>
   subscribed (subscribe req_A (subscribe req_A (init_gateway ''FTX'' two_contracts)))
     = [(''BTC-PERP.FTX'', req_A)]"
proof -
  let ?s = "init_gateway ''FTX'' two_contracts"
  have h: "symbol_contract_map ?s (sr_symbol req_A) \<noteq> None"
    by (simp add: init_gateway_def)
  have fresh: "map_of (subscribed ?s) (vt_symbol req_A) = None"
    by (simp add: init_gateway_def)
  from subscribe_is_idempotent [OF h]
  have "effects (subscribe req_A (subscribe req_A ?s)) =
      effects ?s @
        (if map_of (subscribed ?s) (vt_symbol req_A) = None
         then [SendPacket (Op_subscribe ''ticker'' (Some (sr_symbol req_A))),
               SendPacket (Op_subscribe ''fills'' None),
               SendPacket (Op_subscribe ''orders'' None)]
         else [])"
    and "subscribed (subscribe req_A (subscribe req_A ?s)) =
      (if map_of (subscribed ?s) (vt_symbol req_A) = None
       then subscribed ?s @ [(vt_symbol req_A, req_A)] else subscribed ?s)"
    by blast+
  with fresh have
    "effects (subscribe req_A (subscribe req_A ?s)) =
      effects ?s @ [SendPacket (Op_subscribe ''ticker'' (Some (sr_symbol req_A))),
               SendPacket (Op_subscribe ''fills'' None),
               SendPacket (Op_subscribe ''orders'' None)]"
    and "subscribed (subscribe req_A (subscribe req_A ?s)) = subscribed ?s @ [(vt_symbol req_A, req_A)]"
    by simp_all
  moreover have "effects ?s = []" "subscribed ?s = []" "vt_symbol req_A = ''BTC-PERP.FTX''"
    by (simp_all add: init_gateway_def vt_symbol_def)
  ultimately show ?thesis using h by simp
qed

text \<open>
  C1 fails on the code. With BTC-PERP and ETH-PERP subscribed, a disconnect leaves the
  registry as it was, but the reconnect sends the ping and the login frame only: the loop
  of \<open>on_connected\<close> calls \<open>subscribe\<close> for every registered request, and \<open>subscribe\<close>
  returns at once because the request's key is in the registry. No ticker, fills or orders
  frame is sent again.
\<close>

theorem reconnect_resends_no_subscription:
  "subscribed subscribed_AB = [(''BTC-PERP.FTX'', req_A), (''ETH-PERP.FTX'', req_B)] \<and>
   subscribed (on_disconnected subscribed_AB) = subscribed subscribed_AB \<and>
   effects (on_connected example_lib (on_disconnected subscribed_AB))
     = effects (on_disconnected subscribed_AB) @
       [WriteLog Log_ws_refreshed, SendPacket Op_ping,
        SendPacket (Op_login ''key'' (str_int 1630000000000 @ ''websocket_login'') 1630000000000)]"
  by (simp add: on_connected_def on_disconnected_def subscribe_def ws_connect_def
      init_gateway_def write_log_def emit_def send_packet_def ping_def authenticate_def
      subscribe_private_channels_def vt_symbol_def Let_def)


text \<open>
  The reconnect in general. The keys of the registry are the \<open>vt_symbol\<close> of their
  requests: this holds at construction and \<open>subscribe\<close> and \<open>unsubscribe\<close>, the only
  writers of the registry, keep it. In every such state \<open>on_connected\<close> sends the ping and
  the login frame and nothing else, and leaves the registry as it is.
\<close>

lemma sent_frames_append [simp]: "sent_frames (xs @ ys) = sent_frames xs @ sent_frames ys"
  by (induction xs rule: sent_frames.induct) simp_all

lemma subscribe_registered:
  assumes "map_of (subscribed s) (vt_symbol req) = Some r"
  shows "sent_frames (effects (subscribe req s)) = sent_frames (effects s)"
    and "subscribed (subscribe req s) = subscribed s"
  using assms by (simp_all add: subscribe_def write_log_def emit_def)

lemma fold_subscribe_registered:
  assumes "\<forall>req \<in> set reqs. map_of (subscribed s) (vt_symbol req) \<noteq> None"
  shows "sent_frames (effects (fold subscribe reqs s)) = sent_frames (effects s) \<and>
         subscribed (fold subscribe reqs s) = subscribed s"
  using assms
proof (induction reqs arbitrary: s)
  case Nil
  show ?case by simp
next
  case (Cons req reqs)
  then obtain r where r: "map_of (subscribed s) (vt_symbol req) = Some r" by auto
  have same: "subscribed (subscribe req s) = subscribed s"
    and frames: "sent_frames (effects (subscribe req s)) = sent_frames (effects s)"
    using subscribe_registered [OF r] by simp_all
  from Cons.prems have "\<forall>q \<in> set reqs. map_of (subscribed (subscribe req s)) (vt_symbol q) \<noteq> None"
    by (simp add: same)
  from Cons.IH [OF this] show ?case by (simp add: same frames)
qed

lemma registered_values:
  assumes "registry_keys_ok s" and "req \<in> set (map snd (subscribed s))"
  shows "map_of (subscribed s) (vt_symbol req) \<noteq> None"
proof -
  from assms(2) obtain k where "(k, req) \<in> set (subscribed s)" by auto
  moreover from this assms(1) have "k = vt_symbol req"
    by (auto simp: registry_keys_ok_def list_all_iff)
  ultimately have "vt_symbol req \<in> fst ` set (subscribed s)" by force
  then show ?thesis by (simp add: map_of_eq_None_iff)
qed

lemma reconnect_sends_ping_and_login_only:
  assumes "registry_keys_ok s"
  shows "sent_frames (effects (on_connected lib s)) =
           sent_frames (effects s) @
           [Op_ping,
            Op_login (api_key s)
              (lib_hmac lib (api_secret_key s) (str_int (lib_time lib) @ ''websocket_login''))
              (lib_time lib)]"
    and "subscribed (on_connected lib s) = subscribed s"
proof -
  let ?s3 = "authenticate lib (api_key s) (api_secret_key s) (ping (write_log Log_ws_refreshed s))"
  have s3: "subscribed ?s3 = subscribed s"
    "sent_frames (effects ?s3) = sent_frames (effects s) @
           [Op_ping,
            Op_login (api_key s)
              (lib_hmac lib (api_secret_key s) (str_int (lib_time lib) @ ''websocket_login''))
              (lib_time lib)]"
    by (simp_all add: authenticate_def ping_def write_log_def send_packet_def emit_def Let_def)
  have ok: "registry_keys_ok ?s3" using assms by (simp add: registry_keys_ok_def s3)
  have "\<forall>req \<in> set (map snd (subscribed ?s3)). map_of (subscribed ?s3) (vt_symbol req) \<noteq> None"
    using registered_values [OF ok] by blast
  from fold_subscribe_registered [OF this]
  have "sent_frames (effects (fold subscribe (map snd (subscribed ?s3)) ?s3)) = sent_frames (effects ?s3)"
    and "subscribed (fold subscribe (map snd (subscribed ?s3)) ?s3) = subscribed ?s3"
    by blast+
  moreover have "on_connected lib s = fold subscribe (map snd (subscribed ?s3)) ?s3"
    by (simp add: on_connected_def Let_def ping_def write_log_def authenticate_def
        send_packet_def emit_def)
  ultimately show "sent_frames (effects (on_connected lib s)) =
           sent_frames (effects s) @
           [Op_ping,
            Op_login (api_key s)
              (lib_hmac lib (api_secret_key s) (str_int (lib_time lib) @ ''websocket_login''))
              (lib_time lib)]"
    and "subscribed (on_connected lib s) = subscribed s"
    using s3 by simp_all
qed

lemma registry_keys_ok_init: "registry_keys_ok (init_gateway name contracts)"
  by (simp add: registry_keys_ok_def init_gateway_def)

lemma list_all_update:
  "list_all P al \<Longrightarrow> P (k, v) \<Longrightarrow> list_all P (AList.update k v al)"
  by (induction al) auto

lemma list_all_delete: "list_all P al \<Longrightarrow> list_all P (AList.delete k al)"
  by (induction al) auto

lemma registry_keys_ok_subscribe: "registry_keys_ok s \<Longrightarrow> registry_keys_ok (subscribe req s)"
  by (simp add: registry_keys_ok_def subscribe_def write_log_def emit_def send_packet_def
      subscribe_private_channels_def Let_def list_all_update)

lemma registry_keys_ok_unsubscribe: "registry_keys_ok s \<Longrightarrow> registry_keys_ok (unsubscribe req s)"
  by (simp add: registry_keys_ok_def unsubscribe_def write_log_def emit_def send_packet_def
      Let_def list_all_delete)

subsection \<open>Client order ids\<close>

text \<open>\<open>str\<close> of an integer is injective: the digits can be read back.\<close>

lemma of_char_digit [simp]: "d < 10 \<Longrightarrow> (of_char (digit_char d) :: nat) = 48 + d"
  by (simp add: digit_char_def)

lemma decode_snoc: "decode (cs @ [c]) = 10 * decode cs + ((of_char c :: nat) - 48)"
  by (simp add: decode_def)

lemma decode_str_nat: "decode (str_nat n) = n"
proof (induction n rule: str_nat.induct)
  case (1 n)
  show ?case
  proof (cases "n < 10")
    case True
    then show ?thesis by (simp add: str_nat.simps[of n] decode_def)
  next
    case False
    with 1 show ?thesis by (simp add: str_nat.simps[of n] decode_snoc)
  qed
qed

lemma str_nat_inj: "str_nat a = str_nat b \<Longrightarrow> a = b"
  by (metis decode_str_nat)

lemma str_nat_hd: "\<exists>d cs. d < 10 \<and> str_nat n = digit_char d # cs"
proof (induction n rule: str_nat.induct)
  case (1 n)
  show ?case
  proof (cases "n < 10")
    case True
    then show ?thesis by (auto simp: str_nat.simps[of n])
  next
    case False
    with 1 obtain d cs where "d < 10" "str_nat (n div 10) = digit_char d # cs" by auto
    with False show ?thesis by (auto simp: str_nat.simps[of n])
  qed
qed

lemma digit_not_minus: "d < 10 \<Longrightarrow> digit_char d \<noteq> CHR ''-''"
proof
  assume d: "d < 10" and e: "digit_char d = CHR ''-''"
  then have "(of_char (digit_char d) :: nat) = of_char (CHR ''-'')" by simp
  with d show False by simp
qed

lemma str_int_inj: "str_int a = str_int b \<Longrightarrow> a = b"
proof -
  assume eq: "str_int a = str_int b"
  have neg: "\<And>x y. x < 0 \<Longrightarrow> \<not> y < 0 \<Longrightarrow> str_int x \<noteq> str_int y"
  proof
    fix x y :: int assume "x < 0" "\<not> y < 0" "str_int x = str_int y"
    then have "CHR ''-'' # str_nat (nat (- x)) = str_nat (nat y)" by (simp add: str_int_def)
    moreover obtain d cs where "d < 10" "str_nat (nat y) = digit_char d # cs"
      using str_nat_hd by blast
    ultimately show False using digit_not_minus by auto
  qed
  show ?thesis
  proof (cases "a < 0"; cases "b < 0")
    assume "a < 0" "b < 0"
    with eq have "nat (- a) = nat (- b)" by (auto simp: str_int_def dest: str_nat_inj)
    with \<open>a < 0\<close> \<open>b < 0\<close> show ?thesis by simp
  next
    assume "a < 0" "\<not> b < 0"
    with neg eq show ?thesis by blast
  next
    assume "\<not> a < 0" "b < 0"
    with neg[of b a] eq show ?thesis by simp
  next
    assume "\<not> a < 0" "\<not> b < 0"
    with eq have "nat a = nat b" by (auto simp: str_int_def dest: str_nat_inj)
    with \<open>\<not> a < 0\<close> \<open>\<not> b < 0\<close> show ?thesis by simp
  qed
qed

text \<open>What \<open>send_order\<close>, its second half and \<open>connect\<close> do to the counter, the seed and the published ids.\<close>

lemma order_ids_append [simp]: "order_ids (xs @ ys) = order_ids xs @ order_ids ys"
  by (induction xs rule: order_ids.induct) simp_all

lemma send_order_fields:
  "order_count (snd (send_order req s)) = order_count s + 1"
  "connect_time (snd (send_order req s)) = connect_time s"
  "published_ids (snd (send_order req s))
     = published_ids s @ [str_int (connect_time s + (order_count s + 1))]"
  by (simp_all add: send_order_def new_order_id_def Let_def on_order_def emit_def add_request_def
      published_ids_def create_order_data_def split: sum.splits)

lemma connect_fields:
  "order_count (connect now k sec ph pp s) = order_count s"
  "connect_time (connect now k sec ph pp s) = int now * order_count s"
  "published_ids (connect now k sec ph pp s) = published_ids s"
  by (simp_all add: connect_def Let_def emit_def write_log_def query_account_def
      query_position_def query_order_def query_contract_def add_request_def published_ids_def)

lemma publish_and_post_fields:
  "order_count (snd (publish_and_post req oid s)) = order_count s"
  "connect_time (snd (publish_and_post req oid s)) = connect_time s"
  "published_ids (snd (publish_and_post req oid s)) = published_ids s @ [oid]"
  by (simp_all add: publish_and_post_def Let_def on_order_def emit_def add_request_def
      published_ids_def create_order_data_def split: sum.splits)

lemma init_fields:
  "order_count (init_gateway name contracts) = 1000000"
  "connect_time (init_gateway name contracts) = 0"
  "published_ids (init_gateway name contracts) = []"
  by (simp_all add: init_gateway_def published_ids_def)

lemma published_ids_order_count [simp]:
  "published_ids (s\<lparr>order_count := c\<rparr>) = published_ids s"
  by (simp add: published_ids_def)

lemma order_count_mono: "order_count s \<le> order_count (rest_calls calls s)"
  unfolding rest_calls_def
proof (induction calls arbitrary: s)
  case Nil
  show ?case by simp
next
  case (Cons c calls)
  have "order_count s \<le> order_count (do_call c s)"
    by (cases c) (simp_all add: send_order_fields connect_fields)
  also have "\<dots> \<le> order_count (fold do_call calls (do_call c s))" by (rule Cons.IH)
  finally show ?case by simp
qed

lemma send_orders_fields:
  "order_count (send_orders reqs s) = order_count s + int (length reqs) \<and>
   connect_time (send_orders reqs s) = connect_time s \<and>
   published_ids (send_orders reqs s)
     = published_ids s @
       map (\<lambda>i. str_int (connect_time s + (order_count s + 1 + int i))) [0..<length reqs]"
proof (induction reqs arbitrary: s)
  case Nil
  show ?case by (simp add: send_orders_def rest_calls_def)
next
  case (Cons r reqs)
  let ?s1 = "snd (send_order r s)"
  let ?f = "\<lambda>i. str_int (connect_time s + (order_count s + 1 + int i))"
  have unfold: "send_orders (r # reqs) s = send_orders reqs ?s1"
    by (simp add: send_orders_def rest_calls_def)
  have shift: "(\<lambda>i. str_int (connect_time ?s1 + (order_count ?s1 + 1 + int i))) = (\<lambda>i. ?f (Suc i))"
    by (rule ext) (simp add: send_order_fields add.assoc add.left_commute)
  have ids: "map ?f [0..<length (r # reqs)] = ?f 0 # map (\<lambda>i. ?f (Suc i)) [0..<length reqs]"
    by (simp add: map_upt_Suc del: upt_Suc)
  from Cons.IH [of ?s1] have
    a: "order_count (send_orders reqs ?s1) = order_count ?s1 + int (length reqs)" and
    b: "connect_time (send_orders reqs ?s1) = connect_time ?s1" and
    c: "published_ids (send_orders reqs ?s1) = published_ids ?s1 @
          map (\<lambda>i. str_int (connect_time ?s1 + (order_count ?s1 + 1 + int i))) [0..<length reqs]"
    by blast+
  have "order_count (send_orders (r # reqs) s) = order_count s + int (length (r # reqs))"
    using a by (simp add: unfold send_order_fields)
  moreover have "connect_time (send_orders (r # reqs) s) = connect_time s"
    using b by (simp add: unfold send_order_fields)
  moreover have "published_ids (send_orders (r # reqs) s)
      = published_ids s @ map ?f [0..<length (r # reqs)]"
    unfolding unfold c shift ids by (simp add: send_order_fields)
  ultimately show ?case by blast
qed

lemma new_order_ids_send_orders:
  "new_order_ids s (send_orders reqs s)
    = map (\<lambda>i. str_int (connect_time s + (order_count s + 1 + int i))) [0..<length reqs]"
  by (simp add: new_order_ids_def send_orders_fields)

text \<open>
  \<open>send_order\<close> is \<open>_new_order_id\<close> followed by \<open>publish_and_post\<close>, and a caller that
  takes its three steps without another caller in between does to the gateway what
  \<open>send_order\<close> does.
\<close>

lemma send_order_split:
  "send_order req s =
    (let (n, s1) = new_order_id s in publish_and_post req (str_int (connect_time s + n)) s1)"
  by (simp add: send_order_def publish_and_post_def new_order_id_def Let_def)

lemma caller_alone:
  assumes "callers sys t = Idle"
  shows "shared (caller_step t r2 (caller_step t r1 (caller_step t req sys)))
     = snd (send_order req (shared sys))"
  using assms
  by (simp add: caller_step_def send_order_split new_order_id_def Let_def)

text \<open>The invariant holds at the start and every step of every caller keeps it.\<close>

lemma ids_invE:
  assumes "ids_inv s0 sys"
  obtains k pub where
    "handed_out sys = issued s0 k"
    "published_ids (shared sys) = published_ids s0 @ pub"
    "connect_time (shared sys) = connect_time s0"
    "order_count (shared sys) = order_count s0 + int k"
    "distinct pub"
    "set pub \<subseteq> str_int ` set (handed_out sys)"
    "\<forall>t r ct n. callers sys t = Holding r ct n \<longrightarrow> str_int (ct + n) \<notin> set pub"
    "\<forall>t r ct. callers sys t = Entered r ct \<longrightarrow> ct = connect_time s0"
    "\<forall>t r ct n. callers sys t = Holding r ct n \<longrightarrow> ct + n \<in> set (handed_out sys)"
    "\<forall>t t' r r' ct ct' n n'.
           callers sys t = Holding r ct n \<and> callers sys t' = Holding r' ct' n' \<and> t \<noteq> t'
           \<longrightarrow> ct + n \<noteq> ct' + n'"
  using assms unfolding ids_inv_def by (elim exE conjE) (rule that; assumption)

lemma ids_invI:
  assumes
    "handed_out sys = issued s0 k"
    "published_ids (shared sys) = published_ids s0 @ pub"
    "connect_time (shared sys) = connect_time s0"
    "order_count (shared sys) = order_count s0 + int k"
    "distinct pub"
    "set pub \<subseteq> str_int ` set (handed_out sys)"
    "\<forall>t r ct n. callers sys t = Holding r ct n \<longrightarrow> str_int (ct + n) \<notin> set pub"
    "\<forall>t r ct. callers sys t = Entered r ct \<longrightarrow> ct = connect_time s0"
    "\<forall>t r ct n. callers sys t = Holding r ct n \<longrightarrow> ct + n \<in> set (handed_out sys)"
    "\<forall>t t' r r' ct ct' n n'.
           callers sys t = Holding r ct n \<and> callers sys t' = Holding r' ct' n' \<and> t \<noteq> t'
           \<longrightarrow> ct + n \<noteq> ct' + n'"
  shows "ids_inv s0 sys"
  unfolding ids_inv_def
  apply (rule exI [of _ k])
  apply (rule exI [of _ pub])
  apply (intro conjI)
  apply (fact assms)+
  done

lemma ids_inv_start: "ids_inv s (start s)"
  by (rule ids_invI [of _ _ 0 "[]"]) (simp_all add: start_def issued_def)

lemma issued_bound: "x \<in> set (issued s0 k) \<Longrightarrow> x \<le> connect_time s0 + (order_count s0 + int k)"
  by (auto simp: issued_def)

lemma issued_Suc: "issued s0 (Suc k) = issued s0 k @ [connect_time s0 + (order_count s0 + 1 + int k)]"
  by (simp add: issued_def)

lemma ids_inv_step:
  assumes inv: "ids_inv s0 sys"
  shows "ids_inv s0 (caller_step t req sys)"
proof -
  from inv obtain k pub where
    ho: "handed_out sys = issued s0 k" and
    pub1: "published_ids (shared sys) = published_ids s0 @ pub" and
    ct0: "connect_time (shared sys) = connect_time s0" and
    oc: "order_count (shared sys) = order_count s0 + int k" and
    pub2: "distinct pub" and
    pub3: "set pub \<subseteq> str_int ` set (handed_out sys)" and
    pub4: "\<forall>t r ct n. callers sys t = Holding r ct n \<longrightarrow> str_int (ct + n) \<notin> set pub" and
    ent: "\<forall>t r ct. callers sys t = Entered r ct \<longrightarrow> ct = connect_time s0" and
    hold: "\<forall>t r ct n. callers sys t = Holding r ct n \<longrightarrow> ct + n \<in> set (handed_out sys)" and
    dis: "\<forall>t t' r r' ct ct' n n'.
           callers sys t = Holding r ct n \<and> callers sys t' = Holding r' ct' n' \<and> t \<noteq> t'
           \<longrightarrow> ct + n \<noteq> ct' + n'"
    by (rule ids_invE)
  show ?thesis
  proof (cases "callers sys t")
    case Idle
    let ?sys' = "sys\<lparr>callers := (callers sys)(t := Entered req (connect_time (shared sys)))\<rparr>"
    have step: "caller_step t req sys = ?sys'" using Idle by (simp add: caller_step_def)
    have "ids_inv s0 ?sys'"
    proof (rule ids_invI [of _ _ k pub])
      show "\<forall>u r ct. callers ?sys' u = Entered r ct \<longrightarrow> ct = connect_time s0"
        using ent ct0 by auto
      show "\<forall>u r ct n. callers ?sys' u = Holding r ct n \<longrightarrow> str_int (ct + n) \<notin> set pub"
        using pub4 by auto
      show "\<forall>u r ct n. callers ?sys' u = Holding r ct n \<longrightarrow> ct + n \<in> set (handed_out ?sys')"
        using hold by auto
      show "\<forall>u u' r r' ct ct' n n'.
           callers ?sys' u = Holding r ct n \<and> callers ?sys' u' = Holding r' ct' n' \<and> u \<noteq> u'
           \<longrightarrow> ct + n \<noteq> ct' + n'"
        using dis by (auto split: if_splits)
    qed (use ho pub1 ct0 oc pub2 pub3 in simp_all)
    then show ?thesis by (simp only: step)
  next
    case (Entered r ct)
    from ent Entered have ct: "ct = connect_time s0" by blast
    let ?new = "ct + (order_count (shared sys) + 1)"
    let ?sys' = "sys\<lparr>shared := (shared sys)\<lparr>order_count := order_count (shared sys) + 1\<rparr>,
                    callers := (callers sys)(t := Holding r ct (order_count (shared sys) + 1)),
                    handed_out := handed_out sys @ [?new]\<rparr>"
    have step: "caller_step t req sys = ?sys'"
      using Entered by (simp add: caller_step_def new_order_id_def Let_def)
    have new: "?new = connect_time s0 + (order_count s0 + 1 + int k)"
      by (simp add: ct oc)
    have fresh: "?new \<notin> set (handed_out sys)"
    proof
      assume "?new \<in> set (handed_out sys)"
      then have "?new \<in> set (issued s0 k)" by (simp only: ho)
      from issued_bound [OF this] show False by (simp add: new)
    qed
    have fresh_pub: "str_int ?new \<notin> set pub"
    proof
      assume "str_int ?new \<in> set pub"
      with pub3 obtain y where "y \<in> set (handed_out sys)" "str_int ?new = str_int y" by blast
      with fresh show False using str_int_inj by blast
    qed
    have "ids_inv s0 ?sys'"
    proof (rule ids_invI [of _ _ "Suc k" pub])
      show "handed_out ?sys' = issued s0 (Suc k)" by (simp add: issued_Suc ho new)
      show "published_ids (shared ?sys') = published_ids s0 @ pub"
        using pub1 by (simp add: published_ids_def)
      show "connect_time (shared ?sys') = connect_time s0" using ct0 by simp
      show "order_count (shared ?sys') = order_count s0 + int (Suc k)" using oc by simp
      show "distinct pub" by (rule pub2)
      show "set pub \<subseteq> str_int ` set (handed_out ?sys')" using pub3 by auto
      show "\<forall>u r ct n. callers ?sys' u = Holding r ct n \<longrightarrow> str_int (ct + n) \<notin> set pub"
        using pub4 fresh_pub by auto
      show "\<forall>u r ct. callers ?sys' u = Entered r ct \<longrightarrow> ct = connect_time s0"
        using ent by auto
      show "\<forall>u r ct n. callers ?sys' u = Holding r ct n \<longrightarrow> ct + n \<in> set (handed_out ?sys')"
        using hold by auto
      show "\<forall>u u' r r' ct ct' n n'.
           callers ?sys' u = Holding r ct n \<and> callers ?sys' u' = Holding r' ct' n' \<and> u \<noteq> u'
           \<longrightarrow> ct + n \<noteq> ct' + n'"
      proof (intro allI impI)
        fix u u' r1 r2 c1 c2 n1 n2
        assume a: "callers ?sys' u = Holding r1 c1 n1 \<and> callers ?sys' u' = Holding r2 c2 n2 \<and> u \<noteq> u'"
        show "c1 + n1 \<noteq> c2 + n2"
        proof (cases "u = t")
          case True
          with a have "c1 + n1 = ?new" "callers sys u' = Holding r2 c2 n2" by auto
          with hold fresh show ?thesis by metis
        next
          case False
          show ?thesis
          proof (cases "u' = t")
            case True
            with a False have "c2 + n2 = ?new" "callers sys u = Holding r1 c1 n1" by auto
            with hold fresh show ?thesis by metis
          next
            case False
            with \<open>u \<noteq> t\<close> a have "callers sys u = Holding r1 c1 n1 \<and>
                callers sys u' = Holding r2 c2 n2 \<and> u \<noteq> u'" by simp
            with dis show ?thesis by blast
          qed
        qed
      qed
    qed
    then show ?thesis by (simp only: step)
  next
    case (Holding r ct n)
    let ?g = "snd (publish_and_post r (str_int (ct + n)) (shared sys))"
    let ?sys' = "sys\<lparr>shared := ?g, callers := (callers sys)(t := Idle)\<rparr>"
    have step: "caller_step t req sys = ?sys'"
      using Holding by (simp add: caller_step_def)
    have mine: "str_int (ct + n) \<notin> set pub" "ct + n \<in> set (handed_out sys)"
      using Holding pub4 hold by blast+
    have "ids_inv s0 ?sys'"
    proof (rule ids_invI [of _ _ k "pub @ [str_int (ct + n)]"])
      show "handed_out ?sys' = issued s0 k" using ho by simp
      show "published_ids (shared ?sys') = published_ids s0 @ pub @ [str_int (ct + n)]"
        using pub1 by (simp add: publish_and_post_fields)
      show "connect_time (shared ?sys') = connect_time s0"
        using ct0 by (simp add: publish_and_post_fields)
      show "order_count (shared ?sys') = order_count s0 + int k"
        using oc by (simp add: publish_and_post_fields)
      show "distinct (pub @ [str_int (ct + n)])" using pub2 mine(1) by simp
      show "set (pub @ [str_int (ct + n)]) \<subseteq> str_int ` set (handed_out ?sys')"
        using pub3 mine(2) by auto
      show "\<forall>u r' ct' n'. callers ?sys' u = Holding r' ct' n'
          \<longrightarrow> str_int (ct' + n') \<notin> set (pub @ [str_int (ct + n)])"
      proof (intro allI impI)
        fix u r' ct' n' assume h: "callers ?sys' u = Holding r' ct' n'"
        then have ut: "u \<noteq> t" by (auto split: if_splits)
        with h have h': "callers sys u = Holding r' ct' n'" by simp
        with pub4 have "str_int (ct' + n') \<notin> set pub" by blast
        moreover from h' Holding ut have "callers sys u = Holding r' ct' n' \<and>
            callers sys t = Holding r ct n \<and> u \<noteq> t" by simp
        with dis have "ct' + n' \<noteq> ct + n" by blast
        then have "str_int (ct' + n') \<noteq> str_int (ct + n)" using str_int_inj by blast
        ultimately show "str_int (ct' + n') \<notin> set (pub @ [str_int (ct + n)])" by simp
      qed
      show "\<forall>u r ct. callers ?sys' u = Entered r ct \<longrightarrow> ct = connect_time s0"
        using ent by auto
      show "\<forall>u r ct n. callers ?sys' u = Holding r ct n \<longrightarrow> ct + n \<in> set (handed_out ?sys')"
        using hold by auto
      show "\<forall>u u' r r' ct ct' n n'.
           callers ?sys' u = Holding r ct n \<and> callers ?sys' u' = Holding r' ct' n' \<and> u \<noteq> u'
           \<longrightarrow> ct + n \<noteq> ct' + n'"
        using dis by (auto split: if_splits)
    qed
    then show ?thesis by (simp only: step)
  qed
qed

lemma ids_inv_run: "ids_inv s0 sys \<Longrightarrow> ids_inv s0 (run_callers schedule sys)"
  unfolding run_callers_def
  by (induction schedule arbitrary: sys) (auto simp: ids_inv_step)

text \<open>
  C5. Let any number of threads call \<open>send_order\<close> on a gateway in state \<open>s\<close>, within one
  connection lifetime (no \<open>connect\<close> in between), their steps interleaved in any way, the
  increment and read of the counter being one step under the lock. Then the numbers
  \<open>connect_time + count\<close> generated, in the order the lock was taken, are strictly
  increasing; their strings are pairwise distinct; and the client order ids published
  during the run are pairwise distinct and each is the string of a generated number.
\<close>

theorem concurrent_ids_strictly_increasing:
  "(let sys = run_callers schedule (start s)
    in sorted_wrt (<) (handed_out sys) \<and>
       distinct (map str_int (handed_out sys)) \<and>
       published_ids (shared sys) = published_ids s @ new_order_ids s (shared sys) \<and>
       distinct (new_order_ids s (shared sys)) \<and>
       set (new_order_ids s (shared sys)) \<subseteq> str_int ` set (handed_out sys))"
proof -
  define sys where "sys = run_callers schedule (start s)"
  have inv: "ids_inv s sys" unfolding sys_def by (rule ids_inv_run) (rule ids_inv_start)
  then obtain k pub where
    ho: "handed_out sys = issued s k" and
    pub: "published_ids (shared sys) = published_ids s @ pub" "distinct pub"
        "set pub \<subseteq> str_int ` set (handed_out sys)"
    by (rule ids_invE)
  have "sorted_wrt (<) (issued s k)"
    by (simp add: issued_def sorted_wrt_map)
  with ho have sorted: "sorted_wrt (<) (handed_out sys)" by simp
  then have "distinct (handed_out sys)" using strict_sorted_iff by auto
  then have d: "distinct (map str_int (handed_out sys))"
    by (auto simp: distinct_map inj_on_def dest: str_int_inj)
  have new: "new_order_ids s (shared sys) = pub" by (simp add: new_order_ids_def pub(1))
  from sorted d pub new show ?thesis by (simp add: Let_def sys_def [symmetric])
qed

text \<open>
  Calls that follow one another are the schedule in which each caller finishes before the
  next begins; then the ids are also published in increasing order.
\<close>

lemma sequential_ids_strictly_increasing:
  "\<exists>ns. new_order_ids s (send_orders reqs s) = map str_int ns \<and> sorted_wrt (<) ns \<and>
        length ns = length reqs"
proof (intro exI conjI)
  show "new_order_ids s (send_orders reqs s) = map str_int (issued s (length reqs))"
    by (simp add: new_order_ids_send_orders issued_def comp_def)
  show "sorted_wrt (<) (issued s (length reqs))"
    by (simp add: issued_def sorted_wrt_map)
  show "length (issued s (length reqs)) = length reqs"
    by (simp add: issued_def)
qed

text \<open>
  An interleaving of two callers: thread 0 takes the lock first, thread 1 publishes first.
  The ids are generated in increasing order and published in the other order.
\<close>

lemma interleaving_example:
  "handed_out (run_callers [(0, order_example), (1, order_example), (0, order_example),
        (1, order_example), (1, order_example), (0, order_example)]
      (start (init_gateway ''FTX'' Map.empty)))
     = [1000001, 1000002] \<and>
   published_ids (shared (run_callers [(0, order_example), (1, order_example), (0, order_example),
        (1, order_example), (1, order_example), (0, order_example)]
      (start (init_gateway ''FTX'' Map.empty))))
     = [str_int 1000002, str_int 1000001]"
  by (simp add: run_callers_def start_def caller_step_def new_order_id_def Let_def
      publish_and_post_fields init_fields)

text \<open>
  C6, as amended. Within one process (the gateway as constructed, after any calls
  \<open>before\<close>), a lifetime begins with \<open>connect\<close> at clock reading \<open>t1\<close> and sends the
  orders \<open>reqs1\<close>; after any further calls (\<open>between\<close>: sends and connects, at any clock
  readings) a later lifetime begins with \<open>connect\<close> at reading \<open>t2\<close> and sends \<open>reqs2\<close>.
  If the later reading is not below the earlier one, no client order id of the first
  lifetime is an id of the second. The readings need not differ: the seed is the reading
  times the counter, and the counter has grown.
\<close>

theorem lifetimes_do_not_share_ids:
  assumes "t1 \<le> t2"
  shows
   "(let s0 = rest_calls before (init_gateway name contracts);
         s1 = connect t1 key1 secret1 host1 port1 s0;
         s2 = send_orders reqs1 s1;
         s3 = connect t2 key2 secret2 host2 port2 (rest_calls between s2);
         s4 = send_orders reqs2 s3
     in set (new_order_ids s1 s2) \<inter> set (new_order_ids s3 s4) = {})"
proof -
  define s0 where "s0 = rest_calls before (init_gateway name contracts)"
  define s1 where "s1 = connect t1 key1 secret1 host1 port1 s0"
  define s2 where "s2 = send_orders reqs1 s1"
  define s3 where "s3 = connect t2 key2 secret2 host2 port2 (rest_calls between s2)"
  define s4 where "s4 = send_orders reqs2 s3"
  define c1 where "c1 = order_count s0"
  define c3 where "c3 = order_count s3"
  have "order_count (init_gateway name contracts) \<le> c1"
    unfolding c1_def s0_def by (rule order_count_mono)
  then have "0 \<le> c1" by (simp add: init_fields)
  have ct1: "connect_time s1 = int t1 * c1" and oc1: "order_count s1 = c1"
    by (simp_all add: s1_def c1_def connect_fields)
  have oc2: "order_count s2 = c1 + int (length reqs1)"
    by (simp add: s2_def send_orders_fields oc1)
  have "order_count s2 \<le> order_count (rest_calls between s2)" by (rule order_count_mono)
  then have c3: "c1 + int (length reqs1) \<le> c3"
    by (simp add: c3_def s3_def connect_fields oc2)
  have ct3: "connect_time s3 = int t2 * c3"
    by (simp add: c3_def s3_def connect_fields)
  have ids1: "new_order_ids s1 s2
      = map (\<lambda>i. str_int (int t1 * c1 + (c1 + 1 + int i))) [0..<length reqs1]"
    by (simp add: s2_def new_order_ids_send_orders ct1 oc1)
  have ids2: "new_order_ids s3 s4
      = map (\<lambda>i. str_int (int t2 * c3 + (c3 + 1 + int i))) [0..<length reqs2]"
    by (simp add: s4_def new_order_ids_send_orders ct3 c3_def)
  have "c1 \<le> c3" using c3 by simp
  have "int t1 * c1 \<le> int t1 * c3" using \<open>c1 \<le> c3\<close> by (intro mult_left_mono) auto
  also have "\<dots> \<le> int t2 * c3"
    using assms \<open>0 \<le> c1\<close> \<open>c1 \<le> c3\<close> by (intro mult_right_mono) auto
  finally have seed: "int t1 * c1 \<le> int t2 * c3" .
  have "set (new_order_ids s1 s2) \<inter> set (new_order_ids s3 s4) = {}"
  proof (rule ccontr)
    assume "set (new_order_ids s1 s2) \<inter> set (new_order_ids s3 s4) \<noteq> {}"
    then obtain x where "x \<in> set (new_order_ids s1 s2)" "x \<in> set (new_order_ids s3 s4)" by blast
    then obtain i j where i: "i < length reqs1" and j: "j < length reqs2"
      and "str_int (int t1 * c1 + (c1 + 1 + int i)) = str_int (int t2 * c3 + (c3 + 1 + int j))"
      unfolding ids1 ids2 by auto
    then have "int t1 * c1 + (c1 + 1 + int i) = int t2 * c3 + (c3 + 1 + int j)"
      using str_int_inj by blast
    with seed c3 i show False by linarith
  qed
  then show ?thesis by (simp add: Let_def s0_def s1_def s2_def s3_def s4_def)
qed

text \<open>
  C6, witness: connect at 21-09-01 12:00:00, two orders, connect again five seconds later,
  one order.
\<close>

theorem lifetimes_do_not_share_ids_witness:
  "(210901120000::nat) \<le> 210901120005 \<and>
   (let s0 = rest_calls [] (init_gateway ''FTX'' Map.empty);
        s1 = connect 210901120000 ''key'' ''secret'' [] 0 s0;
        s2 = send_orders [order_example, order_example] s1;
        s3 = connect 210901120005 ''key'' ''secret'' [] 0 (rest_calls [] s2);
        s4 = send_orders [order_example] s3
    in set (new_order_ids s1 s2) \<inter> set (new_order_ids s3 s4) = {} \<and>
       new_order_ids s1 s2 = [str_int (210901120000 * 1000000 + 1000001),
                              str_int (210901120000 * 1000000 + 1000002)] \<and>
       new_order_ids s3 s4 = [str_int (210901120005 * 1000002 + 1000003)])"
proof -
  have h: "(210901120000::nat) \<le> 210901120005" by simp
  have nil: "\<And>s. rest_calls [] s = s" by (simp add: rest_calls_def)
  let ?s0 = "init_gateway ''FTX'' Map.empty"
  let ?s1 = "connect 210901120000 ''key'' ''secret'' [] 0 ?s0"
  let ?s2 = "send_orders [order_example, order_example] ?s1"
  let ?s3 = "connect 210901120005 ''key'' ''secret'' [] 0 ?s2"
  let ?s4 = "send_orders [order_example] ?s3"
  have disj: "set (new_order_ids ?s1 ?s2) \<inter> set (new_order_ids ?s3 ?s4) = {}"
    using lifetimes_do_not_share_ids [OF h, of "[]" "''FTX''" Map.empty "''key''" "''secret''" "[]" 0
        "[order_example, order_example]" "''key''" "''secret''" "[]" 0 "[]" "[order_example]"]
    by (simp only: Let_def nil)
  have oc1: "order_count ?s1 = 1000000" "connect_time ?s1 = 210901120000 * 1000000"
    by (simp_all add: connect_fields init_fields)
  have ids1: "new_order_ids ?s1 ?s2
      = [str_int (210901120000 * 1000000 + 1000001), str_int (210901120000 * 1000000 + 1000002)]"
    by (simp add: new_order_ids_send_orders oc1 upt_rec)
  have "order_count ?s2 = order_count ?s1 + int (length [order_example, order_example])"
    using send_orders_fields [of "[order_example, order_example]" ?s1] by blast
  then have oc2: "order_count ?s2 = 1000002" by (simp add: oc1)
  have oc3: "order_count ?s3 = 1000002" "connect_time ?s3 = 210901120005 * 1000002"
    by (simp_all add: connect_fields oc2)
  have ids2: "new_order_ids ?s3 ?s4 = [str_int (210901120005 * 1000002 + 1000003)]"
    by (simp add: new_order_ids_send_orders oc3)
  from h disj ids1 ids2 show ?thesis by (simp only: Let_def nil)
qed

text \<open>
  C6, counterexample to the claim as stated (any two lifetimes): the wall clock is set back
  by a day between the two connects. The first lifetime, begun at 21-09-02 12:00:00, sends
  one order; the second, begun at the reading 21-09-01 12:00:00, sends 789098880000
  orders, and the last of them gets the id of the first lifetime's order.
\<close>

theorem lifetimes_share_id_counterexample:
  "(let s0 = init_gateway ''FTX'' Map.empty;
        s1 = connect 210902120000 ''key'' ''secret'' [] 0 s0;
        s2 = send_orders [order_example] s1;
        s3 = connect 210901120000 ''key'' ''secret'' [] 0 s2;
        s4 = send_orders (replicate 789098880000 order_example) s3
    in str_int 210902120001000001 \<in> set (new_order_ids s1 s2) \<inter> set (new_order_ids s3 s4))"
proof -
  let ?s0 = "init_gateway ''FTX'' Map.empty"
  let ?s1 = "connect 210902120000 ''key'' ''secret'' [] 0 ?s0"
  let ?s2 = "send_orders [order_example] ?s1"
  let ?s3 = "connect 210901120000 ''key'' ''secret'' [] 0 ?s2"
  let ?s4 = "send_orders (replicate 789098880000 order_example) ?s3"
  have oc1: "order_count ?s1 = 1000000" "connect_time ?s1 = 210902120000 * 1000000"
    by (simp_all add: connect_fields init_fields)
  have ids1: "new_order_ids ?s1 ?s2 = [str_int 210902120001000001]"
    by (simp add: new_order_ids_send_orders oc1)
  have "order_count ?s2 = order_count ?s1 + int (length [order_example])"
    using send_orders_fields [of "[order_example]" ?s1] by blast
  then have oc2: "order_count ?s2 = 1000001" by (simp add: oc1)
  have oc3: "order_count ?s3 = 1000001" "connect_time ?s3 = 210901120000 * 1000001"
    by (simp_all add: connect_fields oc2)
  have ids2: "set (new_order_ids ?s3 ?s4)
      = (\<lambda>i. str_int (210901120000 * 1000001 + (1000001 + 1 + int i))) ` {0..<789098880000}"
    by (simp only: new_order_ids_send_orders oc3 length_replicate set_map set_upt)
  have "(789098879999::nat) \<in> {0..<789098880000}" by simp
  then have "str_int (210901120000 * 1000001 + (1000001 + 1 + int 789098879999))
      \<in> set (new_order_ids ?s3 ?s4)"
    unfolding ids2 by (rule imageI)
  moreover have "(210901120000 * 1000001 + (1000001 + 1 + int 789098879999) :: int)
      = 210902120001000001" by simp
  ultimately have "str_int 210902120001000001 \<in> set (new_order_ids ?s3 ?s4)" by simp
  with ids1 show ?thesis by (simp only: Let_def) simp
qed

end
